theory Spec2Isabelle
  imports Complex_Main "HOL-Library.AList"
begin

section \<open>The stateful sampler of \<open>macos_performance_monitor.py\<close>\<close>

text \<open>
  The class \<open>MacOSPerformanceMonitor\<close> keeps the previous counter readings, the
  temperature cache and the time of the last priming pass in instance fields. Each method
  is embedded as a function from the values it reads from outside (\<open>time.time()\<close>, the
  \<open>psutil\<close> readings, what \<open>subprocess.run\<close> does) and the fields before the call to
  the value returned or exception raised, the fields after the call, and the outside
  effects performed.

  Python floats are idealised as real numbers: timestamps, rates and percentages are
  \<open>real\<close>, and \<open>round(x, 2)\<close> rounds the exact value half-to-even. Byte and packet
  counters are Python integers.
\<close>

subsection \<open>Exceptions, effects, Python primitives\<close>

datatype py_error =
    AttributeError | ZeroDivisionError
  | TimeoutExpired | CalledProcessError | FileNotFoundError | PermissionError | OSError
  | NoSuchProcess | AccessDenied | ZombieProcess

text \<open>What a method does to the outside world, in order.\<close>

datatype effect =
    Run_Powermetrics      \<comment> \<open>\<open>subprocess.run(['sudo', '-n', 'powermetrics', ...], timeout=3)\<close>\<close>
  | Prime_Cpu_Percent int \<comment> \<open>\<open>p.cpu_percent(None)\<close> on the process with this pid\<close>
  | Sleep real            \<comment> \<open>\<open>time.sleep(seconds)\<close>\<close>

text \<open>\<open>a / b\<close> on floats raises \<open>ZeroDivisionError\<close> when \<open>b\<close> is zero.\<close>

definition py_truediv :: "real \<Rightarrow> real \<Rightarrow> py_error + real" where
  "py_truediv a b = (if b = 0 then Inl ZeroDivisionError else Inr (a / b))"

definition round_half_even :: "real \<Rightarrow> int" where
  "round_half_even x =
     (let f = \<lfloor>x\<rfloor>; d = x - of_int f
      in if d < 1 / 2 then f else if 1 / 2 < d then f + 1 else if even f then f else f + 1)"

text \<open>\<open>round(x, ndigits)\<close>.\<close>

definition py_round :: "real \<Rightarrow> nat \<Rightarrow> real" where
  "py_round x ndigits = of_int (round_half_even (x * 10 ^ ndigits)) / 10 ^ ndigits"

subsection \<open>The readings and the instance fields\<close>

text \<open>\<open>psutil.net_io_counters()\<close> and \<open>psutil.disk_io_counters()\<close>: the fields the code reads.\<close>

record snetio =
  bytes_sent :: int
  bytes_recv :: int
  packets_sent :: int
  packets_recv :: int

record sdiskio =
  read_count :: int
  write_count :: int
  read_bytes :: int
  write_bytes :: int

type_synonym temps = "(string \<times> real) list"

record monitor =
  start_time :: real
  network_io_start :: snetio
  prev_net_io :: snetio
  prev_disk_io :: "sdiskio option"
  prev_sample_ts :: real
  last_temp :: "temps option"
  last_temp_ts :: real
  enable_temps :: bool
  temp_refresh_seconds :: int
  proc_prime_ts :: real

text \<open>
  The outcome of a method call: the value returned (\<open>Inr\<close>) or the exception that leaves
  the method (\<open>Inl\<close>), the instance fields afterwards, and the effects performed.
\<close>

type_synonym 'a call = "(py_error + 'a) \<times> monitor \<times> effect list"

definition returned :: "'a call \<Rightarrow> py_error + 'a" where
  "returned c = fst c"

definition fields_after :: "'a call \<Rightarrow> monitor" where
  "fields_after c = fst (snd c)"

definition effects_of :: "'a call \<Rightarrow> effect list" where
  "effects_of c = snd (snd c)"

text \<open>
  \<open>__init__\<close>, given \<open>time.time()\<close>, \<open>psutil.net_io_counters()\<close> and
  \<open>psutil.disk_io_counters()\<close> (which is \<open>None\<close> on a host without disks). The two
  \<open>psutil.cpu_percent\<close> calls at its end touch no field and their exceptions are swallowed.
\<close>

definition init :: "real \<Rightarrow> snetio \<Rightarrow> sdiskio option \<Rightarrow> monitor" where
  "init now net_io disk_io =
     \<lparr> start_time = now,
       network_io_start = net_io,
       prev_net_io = net_io,
       prev_disk_io = disk_io,
       prev_sample_ts = now,
       last_temp = None,
       last_temp_ts = 0,
       enable_temps = False,
       temp_refresh_seconds = 5,
       proc_prime_ts = 0 \<rparr>"

subsection \<open>\<open>get_network_info\<close>\<close>

record network_info =
  bytes_sent_mib :: real
  bytes_recv_mib :: real
  send_rate_mib_s :: real
  recv_rate_mib_s :: real
  net_packets_sent :: int
  net_packets_recv :: int

text \<open>\<open>dt = max(now - self._prev_sample_ts, 1e-6)\<close>, shared by the network and the disk rates.\<close>

definition sample_window :: "real \<Rightarrow> monitor \<Rightarrow> real" where
  "sample_window now s = max (now - prev_sample_ts s) (1 / 1000000)"

definition get_network_info :: "real \<Rightarrow> snetio \<Rightarrow> monitor \<Rightarrow> network_info call" where
  "get_network_info now net_io s =
     (let dt = sample_window now s in
      case py_truediv (of_int (bytes_sent net_io - bytes_sent (prev_net_io s))) dt of
        Inl e \<Rightarrow> (Inl e, s, [])
      | Inr sent_rate \<Rightarrow>
      (case py_truediv (of_int (bytes_recv net_io - bytes_recv (prev_net_io s))) dt of
        Inl e \<Rightarrow> (Inl e, s, [])
      | Inr recv_rate \<Rightarrow>
          (Inr \<lparr> bytes_sent_mib = py_round (of_int (bytes_sent net_io) / 1024 ^ 2) 2,
                 bytes_recv_mib = py_round (of_int (bytes_recv net_io) / 1024 ^ 2) 2,
                 send_rate_mib_s = py_round (sent_rate / 1024 ^ 2) 2,
                 recv_rate_mib_s = py_round (recv_rate / 1024 ^ 2) 2,
                 net_packets_sent = packets_sent net_io,
                 net_packets_recv = packets_recv net_io \<rparr>,
           s\<lparr>prev_net_io := net_io, prev_sample_ts := now\<rparr>,
           [])))"

subsection \<open>\<open>get_disk_info\<close>\<close>

record sdiskpart =
  device :: string
  mountpoint :: string
  fstype :: string

record sdiskusage =
  usage_total :: int
  usage_used :: int
  usage_free :: int
  usage_percent :: real

record partition_info =
  part_device :: string
  part_mountpoint :: string
  part_fstype :: string
  total_gib :: real
  used_gib :: real
  free_gib :: real
  percent :: real

record io_stats_info =
  read_mib :: real
  write_mib :: real
  read_rate_mib_s :: real
  write_rate_mib_s :: real
  io_read_count :: int
  io_write_count :: int

record disk_info =
  partitions :: "partition_info list"
  io_stats :: "io_stats_info option"

text \<open>
  The loop over \<open>psutil.disk_partitions()\<close>: each partition comes with what
  \<open>psutil.disk_usage(partition.mountpoint)\<close> does for it. \<open>PermissionError\<close> and
  \<open>FileNotFoundError\<close> skip the partition, any other exception leaves the method.
\<close>

fun disk_partitions_loop ::
  "(sdiskpart \<times> (py_error + sdiskusage)) list \<Rightarrow> py_error + partition_info list" where
  "disk_partitions_loop [] = Inr []"
| "disk_partitions_loop ((part, Inr usage) # rest) =
     (case disk_partitions_loop rest of
        Inl e \<Rightarrow> Inl e
      | Inr disk_info \<Rightarrow>
          Inr (\<lparr> part_device = device part,
                  part_mountpoint = mountpoint part,
                  part_fstype = fstype part,
                  total_gib = py_round (of_int (usage_total usage) / 1024 ^ 3) 2,
                  used_gib = py_round (of_int (usage_used usage) / 1024 ^ 3) 2,
                  free_gib = py_round (of_int (usage_free usage) / 1024 ^ 3) 2,
                  percent = usage_percent usage \<rparr> # disk_info))"
| "disk_partitions_loop ((part, Inl e) # rest) =
     (if e = PermissionError \<or> e = FileNotFoundError then disk_partitions_loop rest
      else Inl e)"

text \<open>
  The I/O part, run when \<open>psutil.disk_io_counters()\<close> is not \<open>None\<close>. \<open>prev.read_bytes\<close>
  raises \<open>AttributeError\<close> when the stored reading is \<open>None\<close>.
\<close>

definition disk_io_stats :: "real \<Rightarrow> sdiskio \<Rightarrow> monitor \<Rightarrow> py_error + io_stats_info" where
  "disk_io_stats now io s =
     (let dt = sample_window now s in
      case prev_disk_io s of
        None \<Rightarrow> Inl AttributeError
      | Some prev \<Rightarrow>
      (case py_truediv (of_int (read_bytes io - read_bytes prev) / 1024 ^ 2) dt of
        Inl e \<Rightarrow> Inl e
      | Inr read_rate \<Rightarrow>
      (case py_truediv (of_int (write_bytes io - write_bytes prev) / 1024 ^ 2) dt of
        Inl e \<Rightarrow> Inl e
      | Inr write_rate \<Rightarrow>
          Inr \<lparr> read_mib = py_round (of_int (read_bytes io) / 1024 ^ 2) 2,
                write_mib = py_round (of_int (write_bytes io) / 1024 ^ 2) 2,
                read_rate_mib_s = py_round read_rate 2,
                write_rate_mib_s = py_round write_rate 2,
                io_read_count = read_count io,
                io_write_count = write_count io \<rparr>)))"

definition get_disk_info ::
  "real \<Rightarrow> (sdiskpart \<times> (py_error + sdiskusage)) list \<Rightarrow> sdiskio option \<Rightarrow> monitor
     \<Rightarrow> disk_info call" where
  "get_disk_info now parts io_read s =
     (case disk_partitions_loop parts of
        Inl e \<Rightarrow> (Inl e, s, [])
      | Inr disk_info \<Rightarrow>
      (case io_read of
        None \<Rightarrow> (Inr \<lparr> partitions = disk_info, io_stats = None \<rparr>, s, [])
      | Some io \<Rightarrow>
      (case disk_io_stats now io s of
        Inl e \<Rightarrow> (Inl e, s, [])
      | Inr disk_io \<Rightarrow>
          (Inr \<lparr> partitions = disk_info, io_stats = Some disk_io \<rparr>,
           s\<lparr>prev_disk_io := Some io\<rparr>,
           []))))"

subsection \<open>\<open>get_temperature_info\<close>\<close>

text \<open>\<open>line.split(sep)\<close> for a separator of one character.\<close>

fun split_char :: "char \<Rightarrow> string \<Rightarrow> string list" where
  "split_char sep [] = [[]]"
| "split_char sep (c # cs) =
     (if c = sep then [] # split_char sep cs
      else (case split_char sep cs of [] \<Rightarrow> [[c]] | w # ws \<Rightarrow> (c # w) # ws))"

fun starts_with :: "string \<Rightarrow> string \<Rightarrow> bool" where
  "starts_with [] s = True"
| "starts_with (p # ps) [] = False"
| "starts_with (p # ps) (c # cs) = (p = c \<and> starts_with ps cs)"

text \<open>\<open>sub in s\<close>.\<close>

fun contains :: "string \<Rightarrow> string \<Rightarrow> bool" where
  "contains sub [] = (sub = [])"
| "contains sub (c # cs) = (starts_with sub (c # cs) \<or> contains sub cs)"

text \<open>The whitespace of \<open>str.strip()\<close> among the ASCII characters.\<close>

definition is_space :: "char \<Rightarrow> bool" where
  "is_space c =
     (c = CHR '' '' \<or> c = CHR 0x09 \<or> c = CHR 0x0A \<or> c = CHR 0x0B \<or> c = CHR 0x0C
      \<or> c = CHR 0x0D \<or> c = CHR 0x1C \<or> c = CHR 0x1D \<or> c = CHR 0x1E \<or> c = CHR 0x1F)"

definition strip :: "string \<Rightarrow> string" where
  "strip s = rev (dropWhile is_space (rev (dropWhile is_space s)))"

text \<open>\<open>s.replace(' C', '')\<close>: every occurrence, left to right, without overlap.\<close>

fun replace_space_C :: "string \<Rightarrow> string" where
  "replace_space_C [] = []"
| "replace_space_C [c] = [c]"
| "replace_space_C (c # d # cs) =
     (if c = CHR '' '' \<and> d = CHR ''C'' then replace_space_C cs
      else c # replace_space_C (d # cs))"

text \<open>
  The body of the inner \<open>try\<close>, for one line that mentions the CPU die temperature:
  \<open>float(line.split(':')[1].strip().replace(' C', ''))\<close>. The result is \<open>None\<close> when
  the body raises (\<open>IndexError\<close> from \<open>[1]\<close>, \<open>ValueError\<close> from \<open>float\<close>), which
  the code answers with \<open>continue\<close>. Python's \<open>float\<close> on a string is a parameter:
  \<open>py_float s\<close> is \<open>None\<close> where \<open>float(s)\<close> raises.
\<close>

definition parse_temp_line :: "(string \<Rightarrow> real option) \<Rightarrow> string \<Rightarrow> real option" where
  "parse_temp_line py_float line =
     (case split_char CHR '':'' line of
        _ # field # _ \<Rightarrow> py_float (replace_space_C (strip field))
      | _ \<Rightarrow> None)"

fun parse_temps :: "(string \<Rightarrow> real option) \<Rightarrow> string list \<Rightarrow> temps \<Rightarrow> temps" where
  "parse_temps py_float [] temps = temps"
| "parse_temps py_float (line # lines) temps =
     (if contains ''CPU die temperature'' line then
        (case parse_temp_line py_float line of
           None \<Rightarrow> parse_temps py_float lines temps
         | Some temp \<Rightarrow> parse_temps py_float lines (AList.update ''cpu_temp_c'' temp temps))
      else parse_temps py_float lines temps)"

text \<open>
  What \<open>subprocess.run\<close> does when it is called: it returns a completed process or raises.
\<close>

datatype completed_process = CompletedProcess (returncode: int) (stdout: string)

definition get_temperature_info ::
  "(string \<Rightarrow> real option) \<Rightarrow> real \<Rightarrow> py_error + completed_process \<Rightarrow> monitor
     \<Rightarrow> temps option call" where
  "get_temperature_info py_float now run s =
     (if \<not> enable_temps s then (Inr None, s, [])
      else if now - last_temp_ts s < of_int (temp_refresh_seconds s) \<and> last_temp s \<noteq> None
      then (Inr (last_temp s), s, [])
      else
        (case run of
           Inl e \<Rightarrow>
             (if e = TimeoutExpired \<or> e = CalledProcessError \<or> e = FileNotFoundError
              then (Inr None, s, [Run_Powermetrics])
              else (Inl e, s, [Run_Powermetrics]))
         | Inr result \<Rightarrow>
             (if returncode result = 0 then
                (let temps = parse_temps py_float (split_char CHR 0x0A (stdout result)) [];
                     s' = s\<lparr>last_temp := (if temps = [] then None else Some temps),
                             last_temp_ts := now\<rparr>
                 in (Inr (last_temp s'), s', [Run_Powermetrics]))
              else (Inr None, s, [Run_Powermetrics]))))"

subsection \<open>\<open>get_top_processes\<close>\<close>

text \<open>
  \<open>proc.info\<close> as \<open>psutil.process_iter\<close> fills it (a value it could not read is
  \<open>None\<close>), and the dictionary the method builds from it.
\<close>

record pinfo =
  info_pid :: int
  info_name :: "string option"
  info_cpu_percent :: "real option"
  info_memory_percent :: "real option"
  info_username :: "string option"

record process =
  pid :: int
  name :: "string option"
  cpu_percent :: real
  memory_percent :: real
  username :: "string option"

text \<open>\<open>value or 0.0\<close>.\<close>

definition or_zero :: "real option \<Rightarrow> real" where
  "or_zero v = (case v of None \<Rightarrow> 0 | Some x \<Rightarrow> (if x = 0 then 0 else x))"

definition psutil_process_error :: "py_error \<Rightarrow> bool" where
  "psutil_process_error e = (e = NoSuchProcess \<or> e = AccessDenied \<or> e = ZombieProcess)"

text \<open>
  The priming loop over \<open>psutil.process_iter(['pid'])\<close>: each process comes with the
  exception its \<open>cpu_percent(None)\<close> raises, if any. The result is the exception that
  leaves the loop, if any, and the calls made.
\<close>

fun prime_loop :: "(int \<times> py_error option) list \<Rightarrow> py_error option \<times> effect list" where
  "prime_loop [] = (None, [])"
| "prime_loop ((p, raised) # rest) =
     (case raised of
        None \<Rightarrow> (case prime_loop rest of (r, es) \<Rightarrow> (r, Prime_Cpu_Percent p # es))
      | Some e \<Rightarrow>
          (if psutil_process_error e
           then (case prime_loop rest of (r, es) \<Rightarrow> (r, Prime_Cpu_Percent p # es))
           else (Some e, [Prime_Cpu_Percent p])))"

text \<open>
  The loop that builds \<open>processes\<close>: each process of the second enumeration comes with
  its \<open>info\<close>, or with the exception that reading it raises.
\<close>

fun read_loop :: "(py_error + pinfo) list \<Rightarrow> py_error + process list" where
  "read_loop [] = Inr []"
| "read_loop (Inr info # rest) =
     (case read_loop rest of
        Inl e \<Rightarrow> Inl e
      | Inr processes \<Rightarrow>
          Inr (\<lparr> pid = info_pid info,
                  name = info_name info,
                  cpu_percent = or_zero (info_cpu_percent info),
                  memory_percent = py_round (or_zero (info_memory_percent info)) 2,
                  username = info_username info \<rparr> # processes))"
| "read_loop (Inl e # rest) = (if psutil_process_error e then read_loop rest else Inl e)"

text \<open>
  \<open>xs.sort(key=key, reverse=True)\<close>: a stable sort, elements with equal keys keep the
  order they had (CPython reverses the list, sorts it stably and reverses it again).
\<close>

definition sort_reverse :: "('a \<Rightarrow> real) \<Rightarrow> 'a list \<Rightarrow> 'a list" where
  "sort_reverse key xs = rev (sort_key key (rev xs))"

text \<open>\<open>xs[:num]\<close>; a negative \<open>num\<close> counts from the end.\<close>

definition slice_to :: "int \<Rightarrow> 'a list \<Rightarrow> 'a list" where
  "slice_to num xs =
     (if 0 \<le> num then take (nat num) xs else take (nat (int (length xs) + num)) xs)"

text \<open>The guard of the priming pass.\<close>

definition priming_due :: "string \<Rightarrow> real \<Rightarrow> monitor \<Rightarrow> bool" where
  "priming_due sort_by now s = (sort_by = ''cpu'' \<and> 5 < now - proc_prime_ts s)"

definition prime_pass :: "string \<Rightarrow> real \<Rightarrow> (int \<times> py_error option) list \<Rightarrow> monitor \<Rightarrow> unit call" where
  "prime_pass sort_by now prime_iter s =
     (if priming_due sort_by now s then
        (case prime_loop prime_iter of
           (Some e, es) \<Rightarrow> (Inl e, s, es)
         | (None, es) \<Rightarrow> (Inr (), s\<lparr>proc_prime_ts := now\<rparr>, es @ [Sleep (2 / 10)]))
      else (Inr (), s, []))"

text \<open>The key the list is sorted by, after the fallback to \<open>'cpu'\<close>.\<close>

definition sort_metric :: "string \<Rightarrow> process \<Rightarrow> real" where
  "sort_metric sort_by =
     (let sort_by = (if sort_by \<noteq> ''cpu'' \<and> sort_by \<noteq> ''memory'' then ''cpu'' else sort_by)
      in if sort_by = ''cpu'' then cpu_percent else memory_percent)"

definition get_top_processes ::
  "int \<Rightarrow> string \<Rightarrow> real \<Rightarrow> (int \<times> py_error option) list \<Rightarrow> (py_error + pinfo) list \<Rightarrow> monitor
     \<Rightarrow> process list call" where
  "get_top_processes num sort_by now prime_iter proc_iter s =
     (case prime_pass sort_by now prime_iter s of
        (Inl e, s', es) \<Rightarrow> (Inl e, s', es)
      | (Inr _, s', es) \<Rightarrow>
      (case read_loop proc_iter of
        Inl e \<Rightarrow> (Inl e, s', es)
      | Inr processes \<Rightarrow>
          (Inr (slice_to num (sort_reverse (sort_metric sort_by) processes)), s', es)))"

subsection \<open>\<open>get_json_report\<close>\<close>

text \<open>
  One report reads the clock and the counters once per section. The sections for
  uptime, CPU, memory and battery read \<open>psutil\<close> only and touch no field; the report
  is modelled on the four sections that do, in the order the code calls them.
\<close>

record readings =
  disk_now :: real
  disk_parts :: "(sdiskpart \<times> (py_error + sdiskusage)) list"
  disk_io_read :: "sdiskio option"
  net_now :: real
  net_io_read :: snetio
  temp_now :: real
  temp_run :: "py_error + completed_process"
  proc_now :: real
  prime_procs :: "(int \<times> py_error option) list"
  read_procs :: "(py_error + pinfo) list"

record json_report =
  disk :: disk_info
  network :: network_info
  temperature :: "temps option"
  top_processes :: "process list option"

text \<open>One call after another: an exception ends the sequence, the effects add up.\<close>

definition and_then :: "'a call \<Rightarrow> ('a \<Rightarrow> monitor \<Rightarrow> 'b call) \<Rightarrow> 'b call" where
  "and_then m f =
     (case m of
        (Inl e, s, es) \<Rightarrow> (Inl e, s, es)
      | (Inr a, s, es) \<Rightarrow> (case f a s of (r, s', es') \<Rightarrow> (r, s', es @ es')))"

definition get_json_report ::
  "(string \<Rightarrow> real option) \<Rightarrow> bool \<Rightarrow> int \<Rightarrow> string \<Rightarrow> readings \<Rightarrow> monitor \<Rightarrow> json_report call" where
  "get_json_report py_float include_processes top_n sort_by env s =
     and_then (get_disk_info (disk_now env) (disk_parts env) (disk_io_read env) s) (\<lambda>d s.
     and_then (get_network_info (net_now env) (net_io_read env) s) (\<lambda>n s.
     and_then (get_temperature_info py_float (temp_now env) (temp_run env) s) (\<lambda>t s.
     if include_processes then
       and_then (get_top_processes top_n sort_by (proc_now env) (prime_procs env) (read_procs env) s)
         (\<lambda>ps s. (Inr \<lparr> disk = d, network = n, temperature = t, top_processes = Some ps \<rparr>, s, []))
     else (Inr \<lparr> disk = d, network = n, temperature = t, top_processes = None \<rparr>, s, []))))"

subsection \<open>Callers\<close>

text \<open>
  The methods are public and the callers of the repository use them in different orders:
  the reports call them one after another, the widgets of \<open>macos_tui_advanced.py\<close> call
  \<open>get_network_info\<close> and \<open>get_top_processes\<close> on timers of their own, and \<open>main\<close>
  assigns \<open>enable_temps\<close>. A call carries what the method reads from outside; a caller that
  goes on after an exception keeps the fields the method left.
\<close>

datatype method_call =
    Set_Enable_Temps bool
  | Get_Disk_Info real "(sdiskpart \<times> (py_error + sdiskusage)) list" "sdiskio option"
  | Get_Network_Info real snetio
  | Get_Temperature_Info "string \<Rightarrow> real option" real "py_error + completed_process"
  | Get_Top_Processes int string real "(int \<times> py_error option) list" "(py_error + pinfo) list"

fun fields_after_call :: "method_call \<Rightarrow> monitor \<Rightarrow> monitor" where
  "fields_after_call (Set_Enable_Temps b) s = s\<lparr>enable_temps := b\<rparr>"
| "fields_after_call (Get_Disk_Info now parts io_read) s =
     fields_after (get_disk_info now parts io_read s)"
| "fields_after_call (Get_Network_Info now net_io) s =
     fields_after (get_network_info now net_io s)"
| "fields_after_call (Get_Temperature_Info py_float now run) s =
     fields_after (get_temperature_info py_float now run s)"
| "fields_after_call (Get_Top_Processes num sort_by now prime_iter proc_iter) s =
     fields_after (get_top_processes num sort_by now prime_iter proc_iter s)"

fun fields_after_calls :: "method_call list \<Rightarrow> monitor \<Rightarrow> monitor" where
  "fields_after_calls [] s = s"
| "fields_after_calls (c # cs) s = fields_after_calls cs (fields_after_call c s)"

fun is_network_call :: "method_call \<Rightarrow> bool" where
  "is_network_call (Get_Network_Info now net_io) = True"
| "is_network_call c = False"

fun is_disk_call :: "method_call \<Rightarrow> bool" where
  "is_disk_call (Get_Disk_Info now parts io_read) = True"
| "is_disk_call c = False"

subsection \<open>Readings for the examples\<close>

definition net_reading :: "int \<Rightarrow> int \<Rightarrow> snetio" where
  "net_reading sent recv =
     \<lparr> bytes_sent = sent, bytes_recv = recv, packets_sent = 0, packets_recv = 0 \<rparr>"

definition disk_reading :: "int \<Rightarrow> int \<Rightarrow> sdiskio" where
  "disk_reading rd wr =
     \<lparr> read_count = 0, write_count = 0, read_bytes = rd, write_bytes = wr \<rparr>"

text \<open>
  The readings of one report on a host without partitions and processes, where
  \<open>sudo\<close> is missing: every section reads the clock at \<open>now\<close>.
\<close>

definition tick_readings :: "real \<Rightarrow> snetio \<Rightarrow> sdiskio option \<Rightarrow> readings" where
  "tick_readings now net_io disk_io =
     \<lparr> disk_now = now, disk_parts = [], disk_io_read = disk_io,
       net_now = now, net_io_read = net_io,
       temp_now = now, temp_run = Inl FileNotFoundError,
       proc_now = now, prime_procs = [], read_procs = [] \<rparr>"

text \<open>A stand-in for \<open>float\<close> on the texts of the examples.\<close>

definition sample_float :: "string \<Rightarrow> real option" where
  "sample_float text = (if text = ''45.0'' then Some 45 else None)"

definition proc_reading :: "int \<Rightarrow> real \<Rightarrow> real \<Rightarrow> py_error + pinfo" where
  "proc_reading p cpu mem =
     Inr \<lparr> info_pid = p, info_name = None, info_cpu_percent = Some cpu,
           info_memory_percent = Some mem, info_username = None \<rparr>"

section \<open>Properties\<close>

subsection \<open>The sampling window\<close>

lemma sample_window_pos: "0 < sample_window now s"
  by (simp add: sample_window_def max_def)

lemma py_truediv_window:
  "py_truediv a (sample_window now s) = Inr (a / sample_window now s)"
  using sample_window_pos [of now s] by (simp add: py_truediv_def)

lemma round_half_even_nonneg: "0 \<le> x \<Longrightarrow> 0 \<le> round_half_even x"
  by (simp add: round_half_even_def Let_def)

lemma round_half_even_nonpos: "x \<le> 0 \<Longrightarrow> round_half_even x \<le> 0"
  unfolding round_half_even_def Let_def
  by (auto; linarith)

lemma py_round_zero: "py_round 0 n = 0"
  by (simp add: py_round_def round_half_even_def)

lemma py_round_nonneg: "0 \<le> x \<Longrightarrow> 0 \<le> py_round x n"
  by (simp add: py_round_def round_half_even_nonneg)

lemma py_round_nonpos: "x \<le> 0 \<Longrightarrow> py_round x n \<le> 0"
  by (simp add: py_round_def round_half_even_nonpos divide_nonpos_pos mult_nonpos_nonneg)

lemma get_network_info_eq:
  "get_network_info now net_io s =
     (Inr \<lparr> bytes_sent_mib = py_round (of_int (bytes_sent net_io) / 1024 ^ 2) 2,
            bytes_recv_mib = py_round (of_int (bytes_recv net_io) / 1024 ^ 2) 2,
            send_rate_mib_s =
              py_round (of_int (bytes_sent net_io - bytes_sent (prev_net_io s))
                          / sample_window now s / 1024 ^ 2) 2,
            recv_rate_mib_s =
              py_round (of_int (bytes_recv net_io - bytes_recv (prev_net_io s))
                          / sample_window now s / 1024 ^ 2) 2,
            net_packets_sent = packets_sent net_io,
            net_packets_recv = packets_recv net_io \<rparr>,
      s\<lparr>prev_net_io := net_io, prev_sample_ts := now\<rparr>,
      [])"
  unfolding get_network_info_def Let_def py_truediv_window by simp

lemma disk_io_stats_eq:
  "prev_disk_io s = Some prev \<Longrightarrow>
   disk_io_stats now io s =
     Inr \<lparr> read_mib = py_round (of_int (read_bytes io) / 1024 ^ 2) 2,
           write_mib = py_round (of_int (write_bytes io) / 1024 ^ 2) 2,
           read_rate_mib_s =
             py_round (of_int (read_bytes io - read_bytes prev) / 1024 ^ 2
                         / sample_window now s) 2,
           write_rate_mib_s =
             py_round (of_int (write_bytes io - write_bytes prev) / 1024 ^ 2
                         / sample_window now s) 2,
           io_read_count = read_count io,
           io_write_count = write_count io \<rparr>"
  unfolding disk_io_stats_def Let_def py_truediv_window by simp

lemma disk_io_stats_None: "prev_disk_io s = None \<Longrightarrow> disk_io_stats now io s = Inl AttributeError"
  by (simp add: disk_io_stats_def)

lemma get_disk_info_fields:
  "fields_after (get_disk_info now parts io_read s) = s
   \<or> (\<exists>io. io_read = Some io \<and> fields_after (get_disk_info now parts io_read s) = s\<lparr>prev_disk_io := Some io\<rparr>)"
  by (auto simp: get_disk_info_def fields_after_def split: sum.splits option.splits)

text \<open>
  Claim C6. Every rate computation divides by \<open>max(now - self._prev_sample_ts, 1e-6)\<close>:
  the window is at least \<open>1e-6\<close> seconds, it is exactly \<open>1e-6\<close> when the new timestamp
  equals the stored one, and neither the network nor the disk rate computation raises
  \<open>ZeroDivisionError\<close> (\<open>get_network_info\<close> raises nothing at all).
\<close>

theorem rate_window_floored:
  "1 / 1000000 \<le> sample_window now s
   \<and> sample_window (prev_sample_ts s) s = 1 / 1000000
   \<and> \<not> isl (returned (get_network_info now net_io s))
   \<and> disk_io_stats now io s \<noteq> Inl ZeroDivisionError"
proof -
  have "disk_io_stats now io s \<noteq> Inl ZeroDivisionError"
    by (cases "prev_disk_io s") (simp_all add: disk_io_stats_None disk_io_stats_eq)
  then show ?thesis
    by (simp add: sample_window_def get_network_info_eq returned_def)
qed

subsection \<open>What each method leaves unchanged\<close>

lemma get_temperature_info_frame:
  "\<exists>t ts. fields_after (get_temperature_info py_float now run s) = s\<lparr>last_temp := t, last_temp_ts := ts\<rparr>"
proof -
  have same: "\<exists>t ts. s = s\<lparr>last_temp := t, last_temp_ts := ts\<rparr>"
    by (rule exI [of _ "last_temp s"], rule exI [of _ "last_temp_ts s"]) simp
  show ?thesis
    using same
    by (auto simp: get_temperature_info_def fields_after_def Let_def split: sum.splits)
qed

lemma prime_pass_frame:
  "\<exists>ts. fields_after (prime_pass sort_by now prime_iter s) = s\<lparr>proc_prime_ts := ts\<rparr>"
proof -
  have same: "\<exists>ts. s = s\<lparr>proc_prime_ts := ts\<rparr>"
    by (rule exI [of _ "proc_prime_ts s"]) simp
  show ?thesis
    using same
    by (auto simp: prime_pass_def fields_after_def split: prod.splits option.splits)
qed

lemma get_top_processes_fields:
  "fields_after (get_top_processes num sort_by now prime_iter proc_iter s)
     = fields_after (prime_pass sort_by now prime_iter s)"
  by (auto simp: get_top_processes_def fields_after_def split: prod.splits sum.splits)

lemma get_top_processes_frame:
  "\<exists>ts. fields_after (get_top_processes num sort_by now prime_iter proc_iter s) = s\<lparr>proc_prime_ts := ts\<rparr>"
  unfolding get_top_processes_fields by (rule prime_pass_frame)

lemma get_disk_info_sample_ts:
  "prev_sample_ts (fields_after (get_disk_info now parts io_read s)) = prev_sample_ts s"
  using get_disk_info_fields [of now parts io_read s] by auto

lemma get_disk_info_prev_net_io:
  "prev_net_io (fields_after (get_disk_info now parts io_read s)) = prev_net_io s"
  using get_disk_info_fields [of now parts io_read s] by auto

lemma get_disk_info_replaces:
  "\<not> isl (returned (get_disk_info now parts (Some io) s)) \<Longrightarrow>
   prev_disk_io (fields_after (get_disk_info now parts (Some io) s)) = Some io"
  by (auto simp: get_disk_info_def fields_after_def returned_def split: sum.splits)

lemma get_temperature_info_sample_ts:
  "prev_sample_ts (fields_after (get_temperature_info py_float now run s)) = prev_sample_ts s"
  using get_temperature_info_frame [of py_float now run s] by auto

lemma get_top_processes_sample_ts:
  "prev_sample_ts (fields_after (get_top_processes num sort_by now prime_iter proc_iter s)) = prev_sample_ts s"
  using get_top_processes_frame [of num sort_by now prime_iter proc_iter s] by auto

lemma get_temperature_info_counters:
  "prev_net_io (fields_after (get_temperature_info py_float now run s)) = prev_net_io s"
  "prev_disk_io (fields_after (get_temperature_info py_float now run s)) = prev_disk_io s"
  using get_temperature_info_frame [of py_float now run s] by auto

lemma get_top_processes_counters:
  "prev_net_io (fields_after (get_top_processes num sort_by now prime_iter proc_iter s))
     = prev_net_io s"
  "prev_disk_io (fields_after (get_top_processes num sort_by now prime_iter proc_iter s))
     = prev_disk_io s"
  using get_top_processes_frame [of num sort_by now prime_iter proc_iter s] by auto

lemma get_network_info_counters:
  "prev_net_io (fields_after (get_network_info now net_io s)) = net_io"
  "prev_disk_io (fields_after (get_network_info now net_io s)) = prev_disk_io s"
  by (simp_all add: get_network_info_eq fields_after_def)

lemma get_disk_info_Inr:
  "returned (get_disk_info now parts (Some io) s) = Inr d \<Longrightarrow>
   \<exists>prev. prev_disk_io s = Some prev \<and> io_stats d = Some (projr (disk_io_stats now io s))
     \<and> disk_io_stats now io s = Inr (projr (disk_io_stats now io s))"
  by (cases "prev_disk_io s")
     (auto simp: get_disk_info_def returned_def disk_io_stats_None disk_io_stats_eq
           split: sum.splits)

text \<open>
  Claim C10. \<open>get_disk_info\<close> never changes \<open>_prev_sample_ts\<close>, although it replaces
  \<open>_prev_disk_io\<close> by the new reading whenever it computes rates; \<open>get_network_info\<close>
  sets \<open>_prev_sample_ts\<close> to its own timestamp, and neither \<open>get_temperature_info\<close> nor
  \<open>get_top_processes\<close> touches it. The disk rates that \<open>get_disk_info\<close> reports are the
  differences to the stored disk reading divided by \<open>max(now - _prev_sample_ts, 1e-6)\<close>.
  So after a network sample at time \<open>t\<close> and a disk sample at a later time, the next disk
  sample reports the difference to that disk sample divided by the time since \<open>t\<close>, the
  network sample, not by the time since the disk sample.
\<close>

theorem disk_leaves_sample_ts:
  "prev_sample_ts (fields_after (get_disk_info now parts io_read s)) = prev_sample_ts s
   \<and> (\<not> isl (returned (get_disk_info now parts (Some io) s)) \<longrightarrow>
        prev_disk_io (fields_after (get_disk_info now parts (Some io) s)) = Some io)
   \<and> prev_sample_ts (fields_after (get_network_info now net_io s)) = now
   \<and> prev_sample_ts (fields_after (get_temperature_info py_float now run s)) = prev_sample_ts s
   \<and> prev_sample_ts (fields_after (get_top_processes num sort_by now prime_iter proc_iter s))
       = prev_sample_ts s
   \<and> sample_window later
        (fields_after (get_disk_info now parts io_read (fields_after (get_network_info t net_io s))))
       = max (later - t) (1 / 1000000)
   \<and> (returned (get_disk_info now parts (Some io) s) = Inr d \<longrightarrow>
        (\<exists>prev st. prev_disk_io s = Some prev \<and> io_stats d = Some st
           \<and> read_rate_mib_s st
               = py_round (of_int (read_bytes io - read_bytes prev) / 1024 ^ 2
                             / max (now - prev_sample_ts s) (1 / 1000000)) 2
           \<and> write_rate_mib_s st
               = py_round (of_int (write_bytes io - write_bytes prev) / 1024 ^ 2
                             / max (now - prev_sample_ts s) (1 / 1000000)) 2))
   \<and> (\<not> isl (returned (get_disk_info now parts (Some io) (fields_after (get_network_info t net_io s))))
       \<and> returned (get_disk_info later parts' (Some io')
            (fields_after (get_disk_info now parts (Some io)
               (fields_after (get_network_info t net_io s))))) = Inr d' \<longrightarrow>
        (\<exists>st. io_stats d' = Some st
           \<and> read_rate_mib_s st
               = py_round (of_int (read_bytes io' - read_bytes io) / 1024 ^ 2
                             / max (later - t) (1 / 1000000)) 2
           \<and> write_rate_mib_s st
               = py_round (of_int (write_bytes io' - write_bytes io) / 1024 ^ 2
                             / max (later - t) (1 / 1000000)) 2))"
proof -
  have network: "prev_sample_ts (fields_after (get_network_info t' net_io s)) = t'" for t'
    by (simp add: get_network_info_eq fields_after_def)
  have rates: "\<exists>prev st. prev_disk_io s' = Some prev \<and> io_stats r = Some st
           \<and> read_rate_mib_s st
               = py_round (of_int (read_bytes i - read_bytes prev) / 1024 ^ 2
                             / max (t' - prev_sample_ts s') (1 / 1000000)) 2
           \<and> write_rate_mib_s st
               = py_round (of_int (write_bytes i - write_bytes prev) / 1024 ^ 2
                             / max (t' - prev_sample_ts s') (1 / 1000000)) 2"
    if ok: "returned (get_disk_info t' ps (Some i) s') = Inr r" for t' ps i s' r
  proof -
    from get_disk_info_Inr [OF ok] obtain prev where prev: "prev_disk_io s' = Some prev"
      and st: "io_stats r = Some (projr (disk_io_stats t' i s'))"
      by blast
    define st where "st = projr (disk_io_stats t' i s')"
    have "read_rate_mib_s st
        = py_round (of_int (read_bytes i - read_bytes prev) / 1024 ^ 2
                      / max (t' - prev_sample_ts s') (1 / 1000000)) 2"
      and "write_rate_mib_s st
        = py_round (of_int (write_bytes i - write_bytes prev) / 1024 ^ 2
                      / max (t' - prev_sample_ts s') (1 / 1000000)) 2"
      unfolding st_def disk_io_stats_eq [OF prev] by (simp_all add: sample_window_def)
    moreover from \<open>io_stats r = Some (projr (disk_io_stats t' i s'))\<close> have "io_stats r = Some st"
      by (simp add: st_def)
    ultimately show ?thesis
      using prev by blast
  qed
  have next_sample: "\<exists>st. io_stats d' = Some st
           \<and> read_rate_mib_s st
               = py_round (of_int (read_bytes io' - read_bytes io) / 1024 ^ 2
                             / max (later - t) (1 / 1000000)) 2
           \<and> write_rate_mib_s st
               = py_round (of_int (write_bytes io' - write_bytes io) / 1024 ^ 2
                             / max (later - t) (1 / 1000000)) 2"
    if first: "\<not> isl (returned (get_disk_info now parts (Some io)
          (fields_after (get_network_info t net_io s))))"
      and second: "returned (get_disk_info later parts' (Some io')
            (fields_after (get_disk_info now parts (Some io)
               (fields_after (get_network_info t net_io s))))) = Inr d'"
  proof -
    let ?s2 = "fields_after (get_disk_info now parts (Some io)
               (fields_after (get_network_info t net_io s)))"
    have stored: "prev_disk_io ?s2 = Some io"
      using first by (rule get_disk_info_replaces)
    have ts: "prev_sample_ts ?s2 = t"
      by (simp add: get_disk_info_sample_ts network)
    from rates [OF second] show ?thesis
      by (auto simp: stored ts)
  qed
  show ?thesis
    using rates [of now parts io s d] next_sample
    by (simp add: get_disk_info_sample_ts get_temperature_info_sample_ts
        get_top_processes_sample_ts get_disk_info_replaces sample_window_def network)
qed

theorem disk_leaves_sample_ts_witness:
  "\<not> isl (returned (get_disk_info 2 [] (Some (disk_reading 4096 0))
                (init 0 (net_reading 0 0) (Some (disk_reading 0 0)))))
   \<and> prev_disk_io (fields_after (get_disk_info 2 [] (Some (disk_reading 4096 0))
                (init 0 (net_reading 0 0) (Some (disk_reading 0 0)))))
       = Some (disk_reading 4096 0)
   \<and> prev_sample_ts (fields_after (get_disk_info 2 [] (Some (disk_reading 4096 0))
                (init 0 (net_reading 0 0) (Some (disk_reading 0 0))))) = 0
   \<and> \<not> isl (returned (get_disk_info (5 / 2) [] (Some (disk_reading 4096 0))
        (fields_after (get_network_info 2 (net_reading 0 0)
           (init 0 (net_reading 0 0) (Some (disk_reading 0 0)))))))
   \<and> \<not> isl (returned (get_disk_info 3 [] (Some (disk_reading 1052672 0))
        (fields_after (get_disk_info (5 / 2) [] (Some (disk_reading 4096 0))
           (fields_after (get_network_info 2 (net_reading 0 0)
              (init 0 (net_reading 0 0) (Some (disk_reading 0 0)))))))))
   \<and> map_option read_rate_mib_s (io_stats (projr (returned
        (get_disk_info 3 [] (Some (disk_reading 1052672 0))
           (fields_after (get_disk_info (5 / 2) [] (Some (disk_reading 4096 0))
              (fields_after (get_network_info 2 (net_reading 0 0)
                 (init 0 (net_reading 0 0) (Some (disk_reading 0 0))))))))))) = Some 1"
proof -
  let ?s = "init 0 (net_reading 0 0) (Some (disk_reading 0 0))"
  let ?s1 = "fields_after (get_network_info 2 (net_reading 0 0) ?s)"
  let ?first = "get_disk_info (5 / 2) [] (Some (disk_reading 4096 0)) ?s1"
  let ?second = "get_disk_info 3 [] (Some (disk_reading 1052672 0)) (fields_after ?first)"
  have direct: "\<not> isl (returned (get_disk_info 2 [] (Some (disk_reading 4096 0)) ?s))"
    by (simp add: get_disk_info_def disk_io_stats_eq init_def returned_def)
  have first: "\<not> isl (returned ?first)"
    by (simp add: get_disk_info_def disk_io_stats_eq get_network_info_eq init_def returned_def
        fields_after_def)
  have second: "\<not> isl (returned ?second)"
    by (simp add: get_disk_info_def disk_io_stats_eq get_network_info_eq init_def returned_def
        fields_after_def)
  then have ret: "returned ?second = Inr (projr (returned ?second))"
    by (cases "returned ?second") simp_all
  from disk_leaves_sample_ts [where now = 2 and parts = "[]" and io = "disk_reading 4096 0"
      and io_read = "Some (disk_reading 4096 0)" and s = ?s]
    direct
  have stored: "prev_disk_io (fields_after (get_disk_info 2 [] (Some (disk_reading 4096 0)) ?s))
       = Some (disk_reading 4096 0)
     \<and> prev_sample_ts (fields_after (get_disk_info 2 [] (Some (disk_reading 4096 0)) ?s)) = 0"
    by (simp add: init_def)
  from disk_leaves_sample_ts [where now = "5 / 2" and parts = "[]" and io = "disk_reading 4096 0"
      and t = 2 and net_io = "net_reading 0 0" and s = ?s and later = 3 and parts' = "[]"
      and io' = "disk_reading 1052672 0" and d' = "projr (returned ?second)"]
    first ret
  obtain st where st: "io_stats (projr (returned ?second)) = Some st"
    and rate: "read_rate_mib_s st
      = py_round (of_int (read_bytes (disk_reading 1052672 0) - read_bytes (disk_reading 4096 0))
                    / 1024 ^ 2 / max (3 - 2) (1 / 1000000)) 2"
    by blast
  have "read_rate_mib_s st = 1"
    unfolding rate by (simp add: disk_reading_def py_round_def round_half_even_def)
  with st have "map_option read_rate_mib_s (io_stats (projr (returned ?second))) = Some 1"
    by simp
  with direct first second stored show ?thesis
    by blast
qed

subsection \<open>The sign of a rate\<close>

text \<open>
  Claim C1 fails: a counter that went down gives a negative rate. With the stored
  reading at 2 MiB, a new reading of 0 one second later is reported as -2 MiB/s, by
  \<open>get_network_info\<close> and by \<open>get_disk_info\<close> alike.
\<close>

theorem regressed_counter_negative_rate:
  "\<not> 0 \<le> send_rate_mib_s (projr (returned
          (get_network_info 1 (net_reading 0 0) (init 0 (net_reading 2097152 0) None))))
   \<and> \<not> 0 \<le> read_rate_mib_s (the (io_stats (projr (returned
          (get_disk_info 1 [] (Some (disk_reading 0 0))
             (init 0 (net_reading 0 0) (Some (disk_reading 2097152 0))))))))"
  by (simp add: get_network_info_eq get_disk_info_def disk_io_stats_eq returned_def init_def
      sample_window_def net_reading_def disk_reading_def py_round_def round_half_even_def)

lemma quotient_sign:
  fixes d :: int
  shows "0 \<le> d \<Longrightarrow> 0 \<le> of_int d / sample_window now s / (1024 ^ 2 :: real)"
    and "d < 0 \<Longrightarrow> of_int d / sample_window now s / (1024 ^ 2 :: real) < 0"
    and "0 \<le> d \<Longrightarrow> 0 \<le> of_int d / (1024 ^ 2 :: real) / sample_window now s"
    and "d < 0 \<Longrightarrow> of_int d / (1024 ^ 2 :: real) / sample_window now s < 0"
  using sample_window_pos [of now s]
  by (simp_all add: divide_less_0_iff zero_le_divide_iff)

text \<open>
  Claim C1, amended. The rate of a step is the counter difference divided by the window
  and rounded to two decimals: nothing clamps it. It is at least 0 when the new counter
  value is at least the stored one; when the new value is smaller, the quotient is
  strictly negative and the reported rate is at most 0. Either way the new reading
  becomes the stored one. The fields \<open>s\<close> are arbitrary, so this holds at every step of
  every sequence of observations.
\<close>

theorem rate_sign_follows_delta:
  "send_rate_mib_s (projr (returned (get_network_info now net_io s)))
     = py_round (of_int (bytes_sent net_io - bytes_sent (prev_net_io s))
                   / sample_window now s / 1024 ^ 2) 2
   \<and> recv_rate_mib_s (projr (returned (get_network_info now net_io s)))
     = py_round (of_int (bytes_recv net_io - bytes_recv (prev_net_io s))
                   / sample_window now s / 1024 ^ 2) 2
   \<and> prev_net_io (fields_after (get_network_info now net_io s)) = net_io
   \<and> (bytes_sent (prev_net_io s) \<le> bytes_sent net_io \<longrightarrow>
        0 \<le> send_rate_mib_s (projr (returned (get_network_info now net_io s))))
   \<and> (bytes_recv (prev_net_io s) \<le> bytes_recv net_io \<longrightarrow>
        0 \<le> recv_rate_mib_s (projr (returned (get_network_info now net_io s))))
   \<and> (bytes_sent net_io < bytes_sent (prev_net_io s) \<longrightarrow>
        of_int (bytes_sent net_io - bytes_sent (prev_net_io s))
          / sample_window now s / 1024 ^ 2 < (0::real)
        \<and> send_rate_mib_s (projr (returned (get_network_info now net_io s))) \<le> 0)
   \<and> (bytes_recv net_io < bytes_recv (prev_net_io s) \<longrightarrow>
        of_int (bytes_recv net_io - bytes_recv (prev_net_io s))
          / sample_window now s / 1024 ^ 2 < (0::real)
        \<and> recv_rate_mib_s (projr (returned (get_network_info now net_io s))) \<le> 0)
   \<and> (returned (get_disk_info now parts (Some io) s) = Inr d \<longrightarrow>
        prev_disk_io (fields_after (get_disk_info now parts (Some io) s)) = Some io
        \<and> (\<exists>prev st. prev_disk_io s = Some prev \<and> io_stats d = Some st
           \<and> read_rate_mib_s st
               = py_round (of_int (read_bytes io - read_bytes prev) / 1024 ^ 2
                             / sample_window now s) 2
           \<and> write_rate_mib_s st
               = py_round (of_int (write_bytes io - write_bytes prev) / 1024 ^ 2
                             / sample_window now s) 2
           \<and> (read_bytes prev \<le> read_bytes io \<longrightarrow> 0 \<le> read_rate_mib_s st)
           \<and> (write_bytes prev \<le> write_bytes io \<longrightarrow> 0 \<le> write_rate_mib_s st)
           \<and> (read_bytes io < read_bytes prev \<longrightarrow>
                of_int (read_bytes io - read_bytes prev) / 1024 ^ 2 / sample_window now s
                  < (0::real)
                \<and> read_rate_mib_s st \<le> 0)
           \<and> (write_bytes io < write_bytes prev \<longrightarrow>
                of_int (write_bytes io - write_bytes prev) / 1024 ^ 2 / sample_window now s
                  < (0::real)
                \<and> write_rate_mib_s st \<le> 0)))"
proof -
  have net: "returned (get_network_info now net_io s) = Inr (projr (returned (get_network_info now net_io s)))"
    by (simp add: get_network_info_eq returned_def)
  have sent:
    "send_rate_mib_s (projr (returned (get_network_info now net_io s)))
       = py_round (of_int (bytes_sent net_io - bytes_sent (prev_net_io s))
                     / sample_window now s / 1024 ^ 2) 2"
    by (simp add: get_network_info_eq returned_def)
  have recv:
    "recv_rate_mib_s (projr (returned (get_network_info now net_io s)))
       = py_round (of_int (bytes_recv net_io - bytes_recv (prev_net_io s))
                     / sample_window now s / 1024 ^ 2) 2"
    by (simp add: get_network_info_eq returned_def)
  have base: "prev_net_io (fields_after (get_network_info now net_io s)) = net_io"
    by (simp add: get_network_info_eq fields_after_def)
  have up: "0 \<le> py_round (of_int (b - a) / sample_window now s / 1024 ^ 2) 2"
    if "a \<le> b" for a b :: int
    using that quotient_sign(1) [of "b - a" now s] by (intro py_round_nonneg) simp
  have down: "of_int (b - a) / sample_window now s / 1024 ^ 2 < (0::real)
      \<and> py_round (of_int (b - a) / sample_window now s / 1024 ^ 2) 2 \<le> 0"
    if "b < a" for a b :: int
    using that quotient_sign(2) [of "b - a" now s] by (simp add: py_round_nonpos)
  have up': "0 \<le> py_round (of_int (b - a) / 1024 ^ 2 / sample_window now s) 2"
    if "a \<le> b" for a b :: int
    using that quotient_sign(3) [of "b - a" now s] by (intro py_round_nonneg) simp
  have down': "of_int (b - a) / 1024 ^ 2 / sample_window now s < (0::real)
      \<and> py_round (of_int (b - a) / 1024 ^ 2 / sample_window now s) 2 \<le> 0"
    if "b < a" for a b :: int
    using that quotient_sign(4) [of "b - a" now s] by (simp add: py_round_nonpos)
  have disk: "\<exists>prev st. prev_disk_io s = Some prev \<and> io_stats d = Some st
           \<and> read_rate_mib_s st
               = py_round (of_int (read_bytes io - read_bytes prev) / 1024 ^ 2
                             / sample_window now s) 2
           \<and> write_rate_mib_s st
               = py_round (of_int (write_bytes io - write_bytes prev) / 1024 ^ 2
                             / sample_window now s) 2
           \<and> (read_bytes prev \<le> read_bytes io \<longrightarrow> 0 \<le> read_rate_mib_s st)
           \<and> (write_bytes prev \<le> write_bytes io \<longrightarrow> 0 \<le> write_rate_mib_s st)
           \<and> (read_bytes io < read_bytes prev \<longrightarrow>
                of_int (read_bytes io - read_bytes prev) / 1024 ^ 2 / sample_window now s
                  < (0::real)
                \<and> read_rate_mib_s st \<le> 0)
           \<and> (write_bytes io < write_bytes prev \<longrightarrow>
                of_int (write_bytes io - write_bytes prev) / 1024 ^ 2 / sample_window now s
                  < (0::real)
                \<and> write_rate_mib_s st \<le> 0)"
    if ok: "returned (get_disk_info now parts (Some io) s) = Inr d"
  proof -
    from get_disk_info_Inr [OF ok] obtain prev where prev: "prev_disk_io s = Some prev"
      and st: "io_stats d = Some (projr (disk_io_stats now io s))"
      by blast
    show ?thesis
      apply (rule exI [of _ prev], rule exI [of _ "projr (disk_io_stats now io s)"])
      using up' [of "read_bytes prev" "read_bytes io"] up' [of "write_bytes prev" "write_bytes io"]
        down' [of "read_bytes io" "read_bytes prev"] down' [of "write_bytes io" "write_bytes prev"]
      by (simp add: prev st disk_io_stats_eq [OF prev])
  qed
  have stored: "prev_disk_io (fields_after (get_disk_info now parts (Some io) s)) = Some io"
    if "returned (get_disk_info now parts (Some io) s) = Inr d"
    using that by (intro get_disk_info_replaces) simp
  show ?thesis
    unfolding sent recv base
    using up [of "bytes_sent (prev_net_io s)" "bytes_sent net_io"]
      up [of "bytes_recv (prev_net_io s)" "bytes_recv net_io"]
      down [of "bytes_sent net_io" "bytes_sent (prev_net_io s)"]
      down [of "bytes_recv net_io" "bytes_recv (prev_net_io s)"] disk stored
    by blast
qed

theorem rate_sign_follows_delta_witness:
  "bytes_sent (net_reading 0 2097152)
     < bytes_sent (prev_net_io (init 0 (net_reading 2097152 0) (Some (disk_reading 2097152 0))))
   \<and> send_rate_mib_s (projr (returned (get_network_info 1 (net_reading 0 2097152)
         (init 0 (net_reading 2097152 0) (Some (disk_reading 2097152 0)))))) \<le> 0
   \<and> bytes_recv (prev_net_io (init 0 (net_reading 2097152 0) (Some (disk_reading 2097152 0))))
     \<le> bytes_recv (net_reading 0 2097152)
   \<and> 0 \<le> recv_rate_mib_s (projr (returned (get_network_info 1 (net_reading 0 2097152)
         (init 0 (net_reading 2097152 0) (Some (disk_reading 2097152 0))))))
   \<and> bytes_recv (net_reading 2097152 0)
     < bytes_recv (prev_net_io (init 0 (net_reading 0 2097152) (Some (disk_reading 0 2097152))))
   \<and> recv_rate_mib_s (projr (returned (get_network_info 1 (net_reading 2097152 0)
         (init 0 (net_reading 0 2097152) (Some (disk_reading 0 2097152)))))) \<le> 0
   \<and> bytes_sent (prev_net_io (init 0 (net_reading 0 2097152) (Some (disk_reading 0 2097152))))
     \<le> bytes_sent (net_reading 2097152 0)
   \<and> 0 \<le> send_rate_mib_s (projr (returned (get_network_info 1 (net_reading 2097152 0)
         (init 0 (net_reading 0 2097152) (Some (disk_reading 0 2097152))))))
   \<and> map_option read_rate_mib_s (io_stats (projr (returned
         (get_disk_info 1 [] (Some (disk_reading 0 2097152))
            (init 0 (net_reading 2097152 0) (Some (disk_reading 2097152 0))))))) = Some (- 2)
   \<and> map_option write_rate_mib_s (io_stats (projr (returned
         (get_disk_info 1 [] (Some (disk_reading 0 2097152))
            (init 0 (net_reading 2097152 0) (Some (disk_reading 2097152 0))))))) = Some 2
   \<and> map_option read_rate_mib_s (io_stats (projr (returned
         (get_disk_info 1 [] (Some (disk_reading 2097152 0))
            (init 0 (net_reading 0 2097152) (Some (disk_reading 0 2097152))))))) = Some 2
   \<and> map_option write_rate_mib_s (io_stats (projr (returned
         (get_disk_info 1 [] (Some (disk_reading 2097152 0))
            (init 0 (net_reading 0 2097152) (Some (disk_reading 0 2097152))))))) = Some (- 2)"
  using
    rate_sign_follows_delta [where now = 1 and net_io = "net_reading 0 2097152"
      and s = "init 0 (net_reading 2097152 0) (Some (disk_reading 2097152 0))"
      and parts = "[]" and io = "disk_reading 0 2097152"
      and d = "projr (returned (get_disk_info 1 [] (Some (disk_reading 0 2097152))
                 (init 0 (net_reading 2097152 0) (Some (disk_reading 2097152 0)))))"]
    rate_sign_follows_delta [where now = 1 and net_io = "net_reading 2097152 0"
      and s = "init 0 (net_reading 0 2097152) (Some (disk_reading 0 2097152))"
      and parts = "[]" and io = "disk_reading 2097152 0"
      and d = "projr (returned (get_disk_info 1 [] (Some (disk_reading 2097152 0))
                 (init 0 (net_reading 0 2097152) (Some (disk_reading 0 2097152)))))"]
  by (simp add: get_network_info_eq get_disk_info_def disk_io_stats_eq returned_def init_def
      sample_window_def net_reading_def disk_reading_def py_round_def round_half_even_def)

subsection \<open>The first rate after construction\<close>

text \<open>
  Claim C7 fails: \<open>__init__\<close> stores the counters it reads as the previous reading, so
  the first call computes a rate against the readings of construction time. A monitor
  built at time 0 with 0 bytes sent, asked one second later when 2 MiB have been sent,
  reports 2 MiB/s.
\<close>

theorem first_rate_after_init_nonzero:
  "send_rate_mib_s (projr (returned
      (get_network_info 1 (net_reading 2097152 0) (init 0 (net_reading 0 0) None)))) \<noteq> 0"
  by (simp add: get_network_info_eq returned_def init_def sample_window_def net_reading_def
      py_round_def round_half_even_def)

lemma fields_after_calls_append:
  "fields_after_calls (cs @ cs') s = fields_after_calls cs' (fields_after_calls cs s)"
  by (induction cs arbitrary: s) simp_all

lemma other_call_keeps_network:
  "\<not> is_network_call c \<Longrightarrow>
   prev_net_io (fields_after_call c s) = prev_net_io s
   \<and> prev_sample_ts (fields_after_call c s) = prev_sample_ts s"
  by (cases c)
     (simp_all add: get_disk_info_prev_net_io get_disk_info_sample_ts
        get_temperature_info_counters get_temperature_info_sample_ts
        get_top_processes_counters get_top_processes_sample_ts)

lemma other_calls_keep_network:
  "list_all (\<lambda>c. \<not> is_network_call c) cs \<Longrightarrow>
   prev_net_io (fields_after_calls cs s) = prev_net_io s
   \<and> prev_sample_ts (fields_after_calls cs s) = prev_sample_ts s"
  by (induction cs arbitrary: s) (simp_all add: other_call_keeps_network)

lemma other_call_keeps_disk:
  "\<not> is_disk_call c \<Longrightarrow> prev_disk_io (fields_after_call c s) = prev_disk_io s"
  by (cases c)
     (simp_all add: get_network_info_counters get_temperature_info_counters
        get_top_processes_counters)

lemma other_calls_keep_disk:
  "list_all (\<lambda>c. \<not> is_disk_call c) cs \<Longrightarrow>
   prev_disk_io (fields_after_calls cs s) = prev_disk_io s"
  by (induction cs arbitrary: s) (simp_all add: other_call_keeps_disk)

lemma sample_ts_after_network_call:
  assumes "list_all (\<lambda>c. \<not> is_network_call c) after"
  shows "prev_sample_ts (fields_after_calls (before @ Get_Network_Info t n # after) s) = t"
  using other_calls_keep_network [OF assms]
  by (simp add: fields_after_calls_append get_network_info_eq fields_after_def)

text \<open>
  Claim C7, amended. The first rate that a counter family reports after construction,
  whatever was called on the monitor before, is the change of the counter since
  construction divided by the sampling window and rounded to two decimals. For the
  network rates (the first \<open>get_network_info\<close>) the window is the time since construction,
  floored at \<open>1e-6\<close> seconds. For the disk rates (the first \<open>get_disk_info\<close>) the window is
  the time since the latest \<open>get_network_info\<close>, or since construction when there has been
  none, floored at \<open>1e-6\<close> seconds. The rate is 0 when the counter has not changed since
  the monitor was constructed.
\<close>

theorem first_rate_since_construction:
  "(list_all (\<lambda>c. \<not> is_network_call c) calls \<longrightarrow>
      send_rate_mib_s (projr (returned
          (get_network_info now net_io (fields_after_calls calls (init t0 net0 disk0)))))
        = py_round (of_int (bytes_sent net_io - bytes_sent net0)
                      / max (now - t0) (1 / 1000000) / 1024 ^ 2) 2
      \<and> recv_rate_mib_s (projr (returned
          (get_network_info now net_io (fields_after_calls calls (init t0 net0 disk0)))))
        = py_round (of_int (bytes_recv net_io - bytes_recv net0)
                      / max (now - t0) (1 / 1000000) / 1024 ^ 2) 2
      \<and> (bytes_sent net_io = bytes_sent net0 \<longrightarrow>
           send_rate_mib_s (projr (returned
             (get_network_info now net_io (fields_after_calls calls (init t0 net0 disk0))))) = 0)
      \<and> (bytes_recv net_io = bytes_recv net0 \<longrightarrow>
           recv_rate_mib_s (projr (returned
             (get_network_info now net_io (fields_after_calls calls (init t0 net0 disk0))))) = 0))
   \<and> (list_all (\<lambda>c. \<not> is_disk_call c) calls
       \<and> returned (get_disk_info now parts (Some io)
            (fields_after_calls calls (init t0 net0 disk0))) = Inr d \<longrightarrow>
        (\<exists>d0 st. disk0 = Some d0 \<and> io_stats d = Some st
           \<and> (list_all (\<lambda>c. \<not> is_network_call c) calls \<longrightarrow>
                read_rate_mib_s st
                  = py_round (of_int (read_bytes io - read_bytes d0) / 1024 ^ 2
                                / max (now - t0) (1 / 1000000)) 2
                \<and> write_rate_mib_s st
                  = py_round (of_int (write_bytes io - write_bytes d0) / 1024 ^ 2
                                / max (now - t0) (1 / 1000000)) 2)
           \<and> (\<forall>before t n after.
                calls = before @ Get_Network_Info t n # after
                \<and> list_all (\<lambda>c. \<not> is_network_call c) after \<longrightarrow>
                read_rate_mib_s st
                  = py_round (of_int (read_bytes io - read_bytes d0) / 1024 ^ 2
                                / max (now - t) (1 / 1000000)) 2
                \<and> write_rate_mib_s st
                  = py_round (of_int (write_bytes io - write_bytes d0) / 1024 ^ 2
                                / max (now - t) (1 / 1000000)) 2)
           \<and> (read_bytes io = read_bytes d0 \<longrightarrow> read_rate_mib_s st = 0)
           \<and> (write_bytes io = write_bytes d0 \<longrightarrow> write_rate_mib_s st = 0)))"
proof -
  let ?s = "fields_after_calls calls (init t0 net0 disk0)"
  have init: "prev_net_io (init t0 net0 disk0) = net0" "prev_disk_io (init t0 net0 disk0) = disk0"
    "prev_sample_ts (init t0 net0 disk0) = t0"
    by (simp_all add: init_def)
  have network:
    "send_rate_mib_s (projr (returned (get_network_info now net_io ?s)))
       = py_round (of_int (bytes_sent net_io - bytes_sent net0)
                     / max (now - t0) (1 / 1000000) / 1024 ^ 2) 2
     \<and> recv_rate_mib_s (projr (returned (get_network_info now net_io ?s)))
       = py_round (of_int (bytes_recv net_io - bytes_recv net0)
                     / max (now - t0) (1 / 1000000) / 1024 ^ 2) 2
     \<and> (bytes_sent net_io = bytes_sent net0 \<longrightarrow>
          send_rate_mib_s (projr (returned (get_network_info now net_io ?s))) = 0)
     \<and> (bytes_recv net_io = bytes_recv net0 \<longrightarrow>
          recv_rate_mib_s (projr (returned (get_network_info now net_io ?s))) = 0)"
    if first: "list_all (\<lambda>c. \<not> is_network_call c) calls"
  proof -
    from other_calls_keep_network [OF first, of "init t0 net0 disk0"]
    have "prev_net_io ?s = net0" and "sample_window now ?s = max (now - t0) (1 / 1000000)"
      by (simp_all add: init sample_window_def)
    then show ?thesis
      by (simp add: get_network_info_eq returned_def py_round_zero)
  qed
  have disk: "\<exists>d0 st. disk0 = Some d0 \<and> io_stats d = Some st
           \<and> (list_all (\<lambda>c. \<not> is_network_call c) calls \<longrightarrow>
                read_rate_mib_s st
                  = py_round (of_int (read_bytes io - read_bytes d0) / 1024 ^ 2
                                / max (now - t0) (1 / 1000000)) 2
                \<and> write_rate_mib_s st
                  = py_round (of_int (write_bytes io - write_bytes d0) / 1024 ^ 2
                                / max (now - t0) (1 / 1000000)) 2)
           \<and> (\<forall>before t n after.
                calls = before @ Get_Network_Info t n # after
                \<and> list_all (\<lambda>c. \<not> is_network_call c) after \<longrightarrow>
                read_rate_mib_s st
                  = py_round (of_int (read_bytes io - read_bytes d0) / 1024 ^ 2
                                / max (now - t) (1 / 1000000)) 2
                \<and> write_rate_mib_s st
                  = py_round (of_int (write_bytes io - write_bytes d0) / 1024 ^ 2
                                / max (now - t) (1 / 1000000)) 2)
           \<and> (read_bytes io = read_bytes d0 \<longrightarrow> read_rate_mib_s st = 0)
           \<and> (write_bytes io = write_bytes d0 \<longrightarrow> write_rate_mib_s st = 0)"
    if first: "list_all (\<lambda>c. \<not> is_disk_call c) calls"
      and ok: "returned (get_disk_info now parts (Some io) ?s) = Inr d"
  proof -
    from get_disk_info_Inr [OF ok] obtain d0 where d0: "prev_disk_io ?s = Some d0"
      and io_stats: "io_stats d = Some (projr (disk_io_stats now io ?s))"
      by blast
    define st where "st = projr (disk_io_stats now io ?s)"
    from d0 other_calls_keep_disk [OF first, of "init t0 net0 disk0"] have d0': "disk0 = Some d0"
      by (simp add: init)
    have rd: "read_rate_mib_s st
        = py_round (of_int (read_bytes io - read_bytes d0) / 1024 ^ 2
                      / max (now - prev_sample_ts ?s) (1 / 1000000)) 2"
      unfolding st_def disk_io_stats_eq [OF d0] by (simp add: sample_window_def)
    have wr: "write_rate_mib_s st
        = py_round (of_int (write_bytes io - write_bytes d0) / 1024 ^ 2
                      / max (now - prev_sample_ts ?s) (1 / 1000000)) 2"
      unfolding st_def disk_io_stats_eq [OF d0] by (simp add: sample_window_def)
    have since_init: "read_rate_mib_s st
          = py_round (of_int (read_bytes io - read_bytes d0) / 1024 ^ 2
                        / max (now - t0) (1 / 1000000)) 2
        \<and> write_rate_mib_s st
          = py_round (of_int (write_bytes io - write_bytes d0) / 1024 ^ 2
                        / max (now - t0) (1 / 1000000)) 2"
      if "list_all (\<lambda>c. \<not> is_network_call c) calls"
      using other_calls_keep_network [OF that, of "init t0 net0 disk0"]
      by (simp add: rd wr init)
    have since_network: "read_rate_mib_s st
          = py_round (of_int (read_bytes io - read_bytes d0) / 1024 ^ 2
                        / max (now - t) (1 / 1000000)) 2
        \<and> write_rate_mib_s st
          = py_round (of_int (write_bytes io - write_bytes d0) / 1024 ^ 2
                        / max (now - t) (1 / 1000000)) 2"
      if "calls = before @ Get_Network_Info t n # after"
        and "list_all (\<lambda>c. \<not> is_network_call c) after" for before t n after
      using sample_ts_after_network_call [OF that(2), of before t n "init t0 net0 disk0"]
      by (simp add: rd wr that(1))
    have rd0: "read_bytes io = read_bytes d0 \<longrightarrow> read_rate_mib_s st = 0"
      unfolding rd by (simp add: py_round_zero)
    have wr0: "write_bytes io = write_bytes d0 \<longrightarrow> write_rate_mib_s st = 0"
      unfolding wr by (simp add: py_round_zero)
    from io_stats have "io_stats d = Some st"
      by (simp add: st_def)
    with d0' since_init since_network rd0 wr0 show ?thesis
      by blast
  qed
  from network disk show ?thesis
    by blast
qed

theorem first_rate_since_construction_witness:
  "list_all (\<lambda>c. \<not> is_network_call c)
      [Set_Enable_Temps True, Get_Disk_Info 2 [] (Some (disk_reading 512 0))]
   \<and> send_rate_mib_s (projr (returned (get_network_info 3 (net_reading 4096 2097152)
        (fields_after_calls [Set_Enable_Temps True, Get_Disk_Info 2 [] (Some (disk_reading 512 0))]
           (init 1 (net_reading 4096 0) (Some (disk_reading 512 0))))))) = 0
   \<and> recv_rate_mib_s (projr (returned (get_network_info 3 (net_reading 4096 2097152)
        (fields_after_calls [Set_Enable_Temps True, Get_Disk_Info 2 [] (Some (disk_reading 512 0))]
           (init 1 (net_reading 4096 0) (Some (disk_reading 512 0))))))) = 1
   \<and> list_all (\<lambda>c. \<not> is_disk_call c) [Set_Enable_Temps True]
   \<and> map_option read_rate_mib_s (io_stats (projr (returned
        (get_disk_info 3 [] (Some (disk_reading 512 2097152))
           (fields_after_calls [Set_Enable_Temps True]
              (init 1 (net_reading 4096 0) (Some (disk_reading 512 0)))))))) = Some 0
   \<and> map_option write_rate_mib_s (io_stats (projr (returned
        (get_disk_info 3 [] (Some (disk_reading 512 2097152))
           (fields_after_calls [Set_Enable_Temps True]
              (init 1 (net_reading 4096 0) (Some (disk_reading 512 0)))))))) = Some 1
   \<and> list_all (\<lambda>c. \<not> is_disk_call c)
        [Set_Enable_Temps True, Get_Network_Info 9 (net_reading 0 0)]
   \<and> map_option read_rate_mib_s (io_stats (projr (returned
        (get_disk_info 10 [] (Some (disk_reading 2097152 0))
           (fields_after_calls [Set_Enable_Temps True, Get_Network_Info 9 (net_reading 0 0)]
              (init 0 (net_reading 0 0) (Some (disk_reading 0 0)))))))) = Some 2"
proof -
  let ?a = "[Set_Enable_Temps True, Get_Disk_Info 2 [] (Some (disk_reading 512 0))]"
  let ?b = "[Set_Enable_Temps True]"
  let ?c = "[Set_Enable_Temps True, Get_Network_Info 9 (net_reading 0 0)]"
  let ?s = "init 1 (net_reading 4096 0) (Some (disk_reading 512 0))"
  let ?s' = "init 0 (net_reading 0 0) (Some (disk_reading 0 0))"
  let ?db = "get_disk_info 3 [] (Some (disk_reading 512 2097152)) (fields_after_calls ?b ?s)"
  let ?dc = "get_disk_info 10 [] (Some (disk_reading 2097152 0)) (fields_after_calls ?c ?s')"
  have a: "list_all (\<lambda>c. \<not> is_network_call c) ?a"
    and b: "list_all (\<lambda>c. \<not> is_disk_call c) ?b" "list_all (\<lambda>c. \<not> is_network_call c) ?b"
    and c: "list_all (\<lambda>c. \<not> is_disk_call c) ?c"
      "?c = [Set_Enable_Temps True] @ Get_Network_Info 9 (net_reading 0 0) # []"
      "list_all (\<lambda>c. \<not> is_network_call c) []"
    by simp_all
  have "\<not> isl (returned ?db)"
    by (simp add: get_disk_info_def disk_io_stats_eq init_def returned_def)
  then have db: "returned ?db = Inr (projr (returned ?db))"
    by (cases "returned ?db") simp_all
  have "\<not> isl (returned ?dc)"
    by (simp add: get_disk_info_def disk_io_stats_eq get_network_info_eq init_def returned_def
        fields_after_def)
  then have dc: "returned ?dc = Inr (projr (returned ?dc))"
    by (cases "returned ?dc") simp_all
  from first_rate_since_construction [where calls = ?a and now = 3
      and net_io = "net_reading 4096 2097152" and ?t0.0 = 1 and ?net0.0 = "net_reading 4096 0"
      and ?disk0.0 = "Some (disk_reading 512 0)"] a
  have network: "send_rate_mib_s (projr (returned (get_network_info 3 (net_reading 4096 2097152)
        (fields_after_calls ?a ?s)))) = 0
    \<and> recv_rate_mib_s (projr (returned (get_network_info 3 (net_reading 4096 2097152)
        (fields_after_calls ?a ?s)))) = 1"
    by (simp add: net_reading_def py_round_def round_half_even_def)
  from first_rate_since_construction [where calls = ?b and now = 3 and parts = "[]"
      and io = "disk_reading 512 2097152" and ?t0.0 = 1 and ?net0.0 = "net_reading 4096 0"
      and ?disk0.0 = "Some (disk_reading 512 0)" and d = "projr (returned ?db)"] b(1) db
  obtain d0 st where d0: "Some (disk_reading 512 0) = Some d0"
    and st: "io_stats (projr (returned ?db)) = Some st"
    and since_init: "list_all (\<lambda>c. \<not> is_network_call c) ?b \<longrightarrow>
        read_rate_mib_s st
          = py_round (of_int (read_bytes (disk_reading 512 2097152) - read_bytes d0) / 1024 ^ 2
                        / max (3 - 1) (1 / 1000000)) 2
        \<and> write_rate_mib_s st
          = py_round (of_int (write_bytes (disk_reading 512 2097152) - write_bytes d0) / 1024 ^ 2
                        / max (3 - 1) (1 / 1000000)) 2"
    by blast
  from d0 have "d0 = disk_reading 512 0"
    by simp
  with since_init b(2) have "read_rate_mib_s st = 0 \<and> write_rate_mib_s st = 1"
    by (simp add: disk_reading_def py_round_def round_half_even_def)
  with st have early: "map_option read_rate_mib_s (io_stats (projr (returned ?db))) = Some 0
    \<and> map_option write_rate_mib_s (io_stats (projr (returned ?db))) = Some 1"
    by simp
  from first_rate_since_construction [where calls = ?c and now = 10 and parts = "[]"
      and io = "disk_reading 2097152 0" and ?t0.0 = 0 and ?net0.0 = "net_reading 0 0"
      and ?disk0.0 = "Some (disk_reading 0 0)" and d = "projr (returned ?dc)"] c(1) dc
  obtain d0' st' where d0': "Some (disk_reading 0 0) = Some d0'"
    and st': "io_stats (projr (returned ?dc)) = Some st'"
    and since_network: "\<forall>before t n after.
        ?c = before @ Get_Network_Info t n # after
        \<and> list_all (\<lambda>c. \<not> is_network_call c) after \<longrightarrow>
        read_rate_mib_s st'
          = py_round (of_int (read_bytes (disk_reading 2097152 0) - read_bytes d0') / 1024 ^ 2
                        / max (10 - t) (1 / 1000000)) 2
        \<and> write_rate_mib_s st'
          = py_round (of_int (write_bytes (disk_reading 2097152 0) - write_bytes d0') / 1024 ^ 2
                        / max (10 - t) (1 / 1000000)) 2"
    by blast
  from d0' have "d0' = disk_reading 0 0"
    by simp
  moreover from since_network c(2,3) have "read_rate_mib_s st'
      = py_round (of_int (read_bytes (disk_reading 2097152 0) - read_bytes d0') / 1024 ^ 2
                    / max (10 - 9) (1 / 1000000)) 2"
    by blast
  ultimately have "read_rate_mib_s st' = 2"
    by (simp add: disk_reading_def py_round_def round_half_even_def)
  with st' have late: "map_option read_rate_mib_s (io_stats (projr (returned ?dc))) = Some 2"
    by simp
  from a b(1) c(1) network early late show ?thesis
    by blast
qed

subsection \<open>Two reports in a row\<close>

lemma and_then_Inr:
  assumes "returned (and_then m f) = Inr b"
  obtains a where "returned m = Inr a"
    and "returned (f a (fields_after m)) = Inr b"
    and "fields_after (and_then m f) = fields_after (f a (fields_after m))"
proof -
  obtain v s es where m: "m = (v, s, es)"
    by (cases m) auto
  show thesis
  proof (cases v)
    case (Inl e)
    with assms m show thesis
      by (simp add: and_then_def returned_def)
  next
    case (Inr a)
    with assms m have "returned m = Inr a"
      and "returned (f a (fields_after m)) = Inr b"
      and "fields_after (and_then m f) = fields_after (f a (fields_after m))"
      by (simp_all add: and_then_def returned_def fields_after_def split: prod.splits)
    then show thesis
      by (rule that)
  qed
qed

lemma get_disk_info_prev_disk_io:
  assumes "returned (get_disk_info now parts io_read s) = Inr d"
  shows "prev_disk_io (fields_after (get_disk_info now parts io_read s))
           = (case io_read of None \<Rightarrow> prev_disk_io s | Some io \<Rightarrow> Some io)"
  using assms
  by (auto simp: get_disk_info_def fields_after_def returned_def split: sum.splits option.splits)

text \<open>What a report that was returned says about its sections and the fields it leaves.\<close>

lemma get_json_report_Inr:
  assumes "returned (get_json_report py_float include_processes top_n sort_by env s) = Inr r"
  shows "returned (get_disk_info (disk_now env) (disk_parts env) (disk_io_read env) s)
           = Inr (disk r)"
    and "returned (get_network_info (net_now env) (net_io_read env)
           (fields_after (get_disk_info (disk_now env) (disk_parts env) (disk_io_read env) s)))
           = Inr (network r)"
    and "prev_net_io (fields_after
           (get_json_report py_float include_processes top_n sort_by env s)) = net_io_read env"
    and "prev_disk_io (fields_after
           (get_json_report py_float include_processes top_n sort_by env s))
           = (case disk_io_read env of None \<Rightarrow> prev_disk_io s | Some io \<Rightarrow> Some io)"
proof -
  let ?d = "get_disk_info (disk_now env) (disk_parts env) (disk_io_read env) s"
  let ?n = "get_network_info (net_now env) (net_io_read env) (fields_after ?d)"
  let ?t = "get_temperature_info py_float (temp_now env) (temp_run env) (fields_after ?n)"
  let ?p = "get_top_processes top_n sort_by (proc_now env) (prime_procs env) (read_procs env)
              (fields_after ?t)"
  from assms obtain d where d: "returned ?d = Inr d"
    and 1: "returned (and_then ?n (\<lambda>n s.
       and_then (get_temperature_info py_float (temp_now env) (temp_run env) s) (\<lambda>t s.
       if include_processes then
         and_then (get_top_processes top_n sort_by (proc_now env) (prime_procs env) (read_procs env) s)
           (\<lambda>ps s. (Inr \<lparr> disk = d, network = n, temperature = t, top_processes = Some ps \<rparr>, s, []))
       else (Inr \<lparr> disk = d, network = n, temperature = t, top_processes = None \<rparr>, s, [])))) = Inr r"
    and f1: "fields_after (get_json_report py_float include_processes top_n sort_by env s)
      = fields_after (and_then ?n (\<lambda>n s.
       and_then (get_temperature_info py_float (temp_now env) (temp_run env) s) (\<lambda>t s.
       if include_processes then
         and_then (get_top_processes top_n sort_by (proc_now env) (prime_procs env) (read_procs env) s)
           (\<lambda>ps s. (Inr \<lparr> disk = d, network = n, temperature = t, top_processes = Some ps \<rparr>, s, []))
       else (Inr \<lparr> disk = d, network = n, temperature = t, top_processes = None \<rparr>, s, []))))"
    unfolding get_json_report_def by (rule and_then_Inr)
  from 1 obtain n where n: "returned ?n = Inr n"
    and 2: "returned (and_then ?t (\<lambda>t s.
       if include_processes then
         and_then (get_top_processes top_n sort_by (proc_now env) (prime_procs env) (read_procs env) s)
           (\<lambda>ps s. (Inr \<lparr> disk = d, network = n, temperature = t, top_processes = Some ps \<rparr>, s, []))
       else (Inr \<lparr> disk = d, network = n, temperature = t, top_processes = None \<rparr>, s, []))) = Inr r"
    and f2: "fields_after (and_then ?n (\<lambda>n s.
       and_then (get_temperature_info py_float (temp_now env) (temp_run env) s) (\<lambda>t s.
       if include_processes then
         and_then (get_top_processes top_n sort_by (proc_now env) (prime_procs env) (read_procs env) s)
           (\<lambda>ps s. (Inr \<lparr> disk = d, network = n, temperature = t, top_processes = Some ps \<rparr>, s, []))
       else (Inr \<lparr> disk = d, network = n, temperature = t, top_processes = None \<rparr>, s, []))))
      = fields_after (and_then ?t (\<lambda>t s.
       if include_processes then
         and_then (get_top_processes top_n sort_by (proc_now env) (prime_procs env) (read_procs env) s)
           (\<lambda>ps s. (Inr \<lparr> disk = d, network = n, temperature = t, top_processes = Some ps \<rparr>, s, []))
       else (Inr \<lparr> disk = d, network = n, temperature = t, top_processes = None \<rparr>, s, [])))"
    by (rule and_then_Inr)
  from 2 obtain t where t: "returned ?t = Inr t"
    and 3: "returned (if include_processes then
         and_then ?p
           (\<lambda>ps s. (Inr \<lparr> disk = d, network = n, temperature = t, top_processes = Some ps \<rparr>, s, []))
       else (Inr \<lparr> disk = d, network = n, temperature = t, top_processes = None \<rparr>, fields_after ?t, [])) = Inr r"
    and f3: "fields_after (and_then ?t (\<lambda>t s.
       if include_processes then
         and_then (get_top_processes top_n sort_by (proc_now env) (prime_procs env) (read_procs env) s)
           (\<lambda>ps s. (Inr \<lparr> disk = d, network = n, temperature = t, top_processes = Some ps \<rparr>, s, []))
       else (Inr \<lparr> disk = d, network = n, temperature = t, top_processes = None \<rparr>, s, [])))
      = fields_after (if include_processes then
         and_then ?p
           (\<lambda>ps s. (Inr \<lparr> disk = d, network = n, temperature = t, top_processes = Some ps \<rparr>, s, []))
       else (Inr \<lparr> disk = d, network = n, temperature = t, top_processes = None \<rparr>, fields_after ?t, []))"
    by (rule and_then_Inr)
  have r: "disk r = d \<and> network r = n"
    and f4: "fields_after (if include_processes then
         and_then ?p
           (\<lambda>ps s. (Inr \<lparr> disk = d, network = n, temperature = t, top_processes = Some ps \<rparr>, s, []))
       else (Inr \<lparr> disk = d, network = n, temperature = t, top_processes = None \<rparr>, fields_after ?t, []))
      = (if include_processes then fields_after ?p else fields_after ?t)"
  proof -
    show "disk r = d \<and> network r = n"
    proof (cases include_processes)
      case True
      with 3 obtain ps where "returned (Inr \<lparr> disk = d, network = n, temperature = t,
          top_processes = Some ps \<rparr>, fields_after ?p, [] :: effect list) = Inr r"
        by (auto elim: and_then_Inr)
      then show ?thesis
        by (auto simp: returned_def)
    next
      case False
      with 3 show ?thesis
        by (auto simp: returned_def)
    qed
    show "fields_after (if include_processes then
         and_then ?p
           (\<lambda>ps s. (Inr \<lparr> disk = d, network = n, temperature = t, top_processes = Some ps \<rparr>, s, []))
       else (Inr \<lparr> disk = d, network = n, temperature = t, top_processes = None \<rparr>, fields_after ?t, []))
      = (if include_processes then fields_after ?p else fields_after ?t)"
    proof (cases include_processes)
      case True
      with 3 show ?thesis
        by (auto elim!: and_then_Inr simp: fields_after_def)
    next
      case False
      then show ?thesis
        by (simp add: fields_after_def)
    qed
  qed
  have fields: "fields_after (get_json_report py_float include_processes top_n sort_by env s)
      = (if include_processes then fields_after ?p else fields_after ?t)"
    by (simp only: f1 f2 f3 f4)
  show "returned ?d = Inr (disk r)"
    using d r by simp
  show "returned ?n = Inr (network r)"
    using n r by simp
  show "prev_net_io (fields_after
           (get_json_report py_float include_processes top_n sort_by env s)) = net_io_read env"
    unfolding fields
    by (simp add: get_top_processes_counters get_temperature_info_counters
        get_network_info_counters)
  show "prev_disk_io (fields_after
           (get_json_report py_float include_processes top_n sort_by env s))
           = (case disk_io_read env of None \<Rightarrow> prev_disk_io s | Some io \<Rightarrow> Some io)"
    unfolding fields
    by (simp add: get_top_processes_counters get_temperature_info_counters
        get_network_info_counters get_disk_info_prev_disk_io [OF d])
qed

text \<open>
  Claim C8. When a report has been returned and the next report reads the same network
  and disk counters, every rate of the next report is 0: both network rates, and both
  disk rates whenever the report has disk I/O statistics.
\<close>

theorem unchanged_counters_zero_rates:
  assumes first:
      "returned (get_json_report py_float include_processes top_n sort_by env s) = Inr r1"
    and net: "net_io_read env' = net_io_read env"
    and disk: "disk_io_read env' = disk_io_read env"
    and second:
      "returned (get_json_report py_float' include_processes' top_n' sort_by' env'
         (fields_after (get_json_report py_float include_processes top_n sort_by env s)))
       = Inr r2"
  shows "send_rate_mib_s (network r2) = 0 \<and> recv_rate_mib_s (network r2) = 0
    \<and> (case io_stats (disk r2) of
          None \<Rightarrow> disk_io_read env = None
        | Some st \<Rightarrow> read_rate_mib_s st = 0 \<and> write_rate_mib_s st = 0)"
proof -
  let ?s1 = "fields_after (get_json_report py_float include_processes top_n sort_by env s)"
  let ?d = "get_disk_info (disk_now env') (disk_parts env') (disk_io_read env') ?s1"
  note stored = get_json_report_Inr(3,4) [OF first]
  note sections = get_json_report_Inr(1,2) [OF second]
  have baseline: "prev_net_io (fields_after ?d) = net_io_read env'"
    by (simp add: get_disk_info_prev_net_io stored net)
  from sections(2) have "network r2
      = projr (returned (get_network_info (net_now env') (net_io_read env') (fields_after ?d)))"
    by simp
  then have network: "send_rate_mib_s (network r2) = 0 \<and> recv_rate_mib_s (network r2) = 0"
    by (simp add: get_network_info_eq returned_def baseline py_round_zero)
  have "case io_stats (disk r2) of
          None \<Rightarrow> disk_io_read env = None
        | Some st \<Rightarrow> read_rate_mib_s st = 0 \<and> write_rate_mib_s st = 0"
  proof (cases "disk_io_read env")
    case None
    with sections(1) disk have "disk r2
        = projr (returned (get_disk_info (disk_now env') (disk_parts env') None ?s1))"
      by simp
    moreover from sections(1) disk None
    have "\<not> isl (disk_partitions_loop (disk_parts env'))"
      by (auto simp: get_disk_info_def returned_def split: sum.splits)
    ultimately have "io_stats (disk r2) = None"
      by (auto simp: get_disk_info_def returned_def split: sum.splits)
    with None show ?thesis
      by simp
  next
    case (Some io)
    with stored(2) have prev: "prev_disk_io ?s1 = Some io"
      by simp
    from sections(1) Some disk
    have "returned (get_disk_info (disk_now env') (disk_parts env') (Some io) ?s1) = Inr (disk r2)"
      by simp
    from get_disk_info_Inr [OF this]
    have "io_stats (disk r2) = Some (projr (disk_io_stats (disk_now env') io ?s1))"
      by blast
    then show ?thesis
      by (simp add: disk_io_stats_eq [OF prev] py_round_zero)
  qed
  with network show ?thesis
    by simp
qed

theorem unchanged_counters_zero_rates_witness:
  "\<not> isl (returned (get_json_report sample_float True 10 ''cpu''
        (tick_readings 1 (net_reading 4096 8192) (Some (disk_reading 512 1024)))
        (init 0 (net_reading 0 0) (Some (disk_reading 0 0)))))
   \<and> \<not> isl (returned (get_json_report sample_float True 10 ''cpu''
        (tick_readings 2 (net_reading 4096 8192) (Some (disk_reading 512 1024)))
        (fields_after (get_json_report sample_float True 10 ''cpu''
           (tick_readings 1 (net_reading 4096 8192) (Some (disk_reading 512 1024)))
           (init 0 (net_reading 0 0) (Some (disk_reading 0 0)))))))
   \<and> send_rate_mib_s (network (projr (returned (get_json_report sample_float True 10 ''cpu''
        (tick_readings 2 (net_reading 4096 8192) (Some (disk_reading 512 1024)))
        (fields_after (get_json_report sample_float True 10 ''cpu''
           (tick_readings 1 (net_reading 4096 8192) (Some (disk_reading 512 1024)))
           (init 0 (net_reading 0 0) (Some (disk_reading 0 0))))))))) = 0
   \<and> map_option write_rate_mib_s (io_stats (disk (projr (returned
        (get_json_report sample_float True 10 ''cpu''
        (tick_readings 2 (net_reading 4096 8192) (Some (disk_reading 512 1024)))
        (fields_after (get_json_report sample_float True 10 ''cpu''
           (tick_readings 1 (net_reading 4096 8192) (Some (disk_reading 512 1024)))
           (init 0 (net_reading 0 0) (Some (disk_reading 0 0)))))))))) = Some 0"
proof -
  let ?env = "tick_readings 1 (net_reading 4096 8192) (Some (disk_reading 512 1024))"
  let ?env' = "tick_readings 2 (net_reading 4096 8192) (Some (disk_reading 512 1024))"
  let ?s = "init 0 (net_reading 0 0) (Some (disk_reading 0 0))"
  let ?first = "get_json_report sample_float True 10 ''cpu'' ?env ?s"
  let ?second = "get_json_report sample_float True 10 ''cpu'' ?env' (fields_after ?first)"
  have first: "\<not> isl (returned ?first)"
    by (simp add: get_json_report_def and_then_def get_disk_info_def disk_io_stats_eq
        get_network_info_eq get_temperature_info_def get_top_processes_def prime_pass_def
        priming_due_def tick_readings_def init_def returned_def fields_after_def)
  have second: "\<not> isl (returned ?second)"
    by (simp add: get_json_report_def and_then_def get_disk_info_def disk_io_stats_eq
        get_network_info_eq get_temperature_info_def get_top_processes_def prime_pass_def
        priming_due_def tick_readings_def init_def returned_def fields_after_def)
  have same: "net_io_read ?env' = net_io_read ?env" "disk_io_read ?env' = disk_io_read ?env"
    by (simp_all add: tick_readings_def)
  from first have r1: "returned ?first = Inr (projr (returned ?first))"
    by (cases "returned ?first") simp_all
  from second have r2: "returned ?second = Inr (projr (returned ?second))"
    by (cases "returned ?second") simp_all
  from unchanged_counters_zero_rates [OF r1 same r2] first second
  show ?thesis
    by (auto split: option.splits simp: tick_readings_def)
qed

subsection \<open>The temperature cache\<close>

text \<open>The guard of the cache: the stored value is served.\<close>

lemma get_temperature_info_hit:
  assumes "enable_temps s"
    and "now - last_temp_ts s < of_int (temp_refresh_seconds s)" and "last_temp s \<noteq> None"
  shows "get_temperature_info py_float now run s = (Inr (last_temp s), s, [])"
  using assms by (simp add: get_temperature_info_def)

lemma get_temperature_info_miss:
  assumes "enable_temps s"
    and "\<not> (now - last_temp_ts s < of_int (temp_refresh_seconds s) \<and> last_temp s \<noteq> None)"
  shows "get_temperature_info py_float now run s =
     (case run of
        Inl e \<Rightarrow>
          (if e = TimeoutExpired \<or> e = CalledProcessError \<or> e = FileNotFoundError
           then (Inr None, s, [Run_Powermetrics])
           else (Inl e, s, [Run_Powermetrics]))
      | Inr result \<Rightarrow>
          (if returncode result = 0 then
             (let temps = parse_temps py_float (split_char CHR 0x0A (stdout result)) [];
                  s' = s\<lparr>last_temp := (if temps = [] then None else Some temps),
                          last_temp_ts := now\<rparr>
              in (Inr (last_temp s'), s', [Run_Powermetrics]))
           else (Inr None, s, [Run_Powermetrics])))"
  using assms by (cases "last_temp s") (simp_all add: get_temperature_info_def)

text \<open>
  Claim C2 fails twice. A probe that times out at time 100 leaves the record as it was:
  the fetch timestamp stays 0. And a probe that succeeds at time 100 with no temperature
  line stores \<open>None\<close> with timestamp 100, yet the call at time 101, four seconds before
  the TTL of 5 expires, runs the probe again.
\<close>

theorem failed_probe_not_cached:
  "last_temp_ts (fields_after (get_temperature_info sample_float 100 (Inl TimeoutExpired)
       (init 0 (net_reading 0 0) None\<lparr>enable_temps := True\<rparr>))) \<noteq> 100
   \<and> last_temp_ts (fields_after (get_temperature_info sample_float 100
       (Inr (CompletedProcess 0 ''''))
       (init 0 (net_reading 0 0) None\<lparr>enable_temps := True\<rparr>))) = 100
   \<and> last_temp (fields_after (get_temperature_info sample_float 100
       (Inr (CompletedProcess 0 ''''))
       (init 0 (net_reading 0 0) None\<lparr>enable_temps := True\<rparr>))) = None
   \<and> effects_of (get_temperature_info sample_float 101 (Inr (CompletedProcess 0 ''''))
       (fields_after (get_temperature_info sample_float 100 (Inr (CompletedProcess 0 ''''))
          (init 0 (net_reading 0 0) None\<lparr>enable_temps := True\<rparr>)))) = [Run_Powermetrics]"
  by (simp add: get_temperature_info_def fields_after_def effects_of_def init_def)

text \<open>
  Claim C2, amended. With temperatures enabled, a call that misses runs the probe
  exactly once. The record is replaced only when the probe returns with code 0: the
  timestamp becomes \<open>now\<close>, and the value becomes the parsed temperatures, or \<open>None\<close>
  when none was parsed; that value is returned. When the probe returns another code or
  raises, the record stays as it was, and the call returns \<open>None\<close> (the caught
  exceptions) or raises (any other). A stored \<open>None\<close> is never served: when the stored
  value is \<open>None\<close>, a call at any time runs the probe, whatever the TTL.
\<close>

theorem probe_miss_refreshes_on_success_only:
  assumes enabled: "enable_temps s"
    and miss: "\<not> (now - last_temp_ts s < of_int (temp_refresh_seconds s) \<and> last_temp s \<noteq> None)"
  shows "effects_of (get_temperature_info py_float now run s) = [Run_Powermetrics]
    \<and> (\<forall>out. run = Inr (CompletedProcess 0 out) \<longrightarrow>
          last_temp_ts (fields_after (get_temperature_info py_float now run s)) = now
          \<and> returned (get_temperature_info py_float now run s)
              = Inr (last_temp (fields_after (get_temperature_info py_float now run s)))
          \<and> last_temp (fields_after (get_temperature_info py_float now run s))
              = (if parse_temps py_float (split_char CHR 0x0A out) [] = [] then None
                 else Some (parse_temps py_float (split_char CHR 0x0A out) [])))
    \<and> (\<forall>code out. run = Inr (CompletedProcess code out) \<and> code \<noteq> 0 \<longrightarrow>
          get_temperature_info py_float now run s = (Inr None, s, [Run_Powermetrics]))
    \<and> (\<forall>e. run = Inl e \<longrightarrow>
          fields_after (get_temperature_info py_float now run s) = s
          \<and> returned (get_temperature_info py_float now run s)
              = (if e = TimeoutExpired \<or> e = CalledProcessError \<or> e = FileNotFoundError
                 then Inr None else Inl e))
    \<and> (last_temp s = None \<longrightarrow>
          effects_of (get_temperature_info py_float' now' run' s) = [Run_Powermetrics])"
proof -
  have always: "effects_of (get_temperature_info py_float' now' run' s) = [Run_Powermetrics]"
    if "last_temp s = None"
    using that enabled
    by (auto simp: get_temperature_info_def effects_of_def Let_def split: sum.splits)
  show ?thesis
    using always
    by (auto simp: get_temperature_info_miss [OF enabled miss] effects_of_def fields_after_def
          returned_def Let_def split: sum.splits)
qed

theorem probe_miss_refreshes_on_success_only_witness:
  "enable_temps (init 0 (net_reading 0 0) None\<lparr>enable_temps := True\<rparr>)
   \<and> \<not> (100 - last_temp_ts (init 0 (net_reading 0 0) None\<lparr>enable_temps := True\<rparr>)
           < of_int (temp_refresh_seconds (init 0 (net_reading 0 0) None\<lparr>enable_temps := True\<rparr>))
         \<and> last_temp (init 0 (net_reading 0 0) None\<lparr>enable_temps := True\<rparr>) \<noteq> None)
   \<and> effects_of (get_temperature_info sample_float 100
         (Inr (CompletedProcess 0 ''CPU die temperature: 45.0 C''))
         (init 0 (net_reading 0 0) None\<lparr>enable_temps := True\<rparr>)) = [Run_Powermetrics]
   \<and> last_temp (fields_after (get_temperature_info sample_float 100
         (Inr (CompletedProcess 0 ''CPU die temperature: 45.0 C''))
         (init 0 (net_reading 0 0) None\<lparr>enable_temps := True\<rparr>)))
       = Some [(''cpu_temp_c'', 45)]
   \<and> last_temp_ts (fields_after (get_temperature_info sample_float 100
         (Inr (CompletedProcess 0 ''CPU die temperature: 45.0 C''))
         (init 0 (net_reading 0 0) None\<lparr>enable_temps := True\<rparr>))) = 100
   \<and> get_temperature_info sample_float 100 (Inr (CompletedProcess 1 ''''))
         (init 0 (net_reading 0 0) None\<lparr>enable_temps := True\<rparr>)
       = (Inr None, init 0 (net_reading 0 0) None\<lparr>enable_temps := True\<rparr>, [Run_Powermetrics])
   \<and> fields_after (get_temperature_info sample_float 100 (Inl TimeoutExpired)
         (init 0 (net_reading 0 0) None\<lparr>enable_temps := True\<rparr>))
       = init 0 (net_reading 0 0) None\<lparr>enable_temps := True\<rparr>
   \<and> returned (get_temperature_info sample_float 100 (Inl TimeoutExpired)
         (init 0 (net_reading 0 0) None\<lparr>enable_temps := True\<rparr>)) = Inr None
   \<and> last_temp (init 0 (net_reading 0 0) None\<lparr>enable_temps := True\<rparr>) = None
   \<and> effects_of (get_temperature_info sample_float 3 (Inl TimeoutExpired)
         (init 0 (net_reading 0 0) None\<lparr>enable_temps := True\<rparr>)) = [Run_Powermetrics]"
  using
    probe_miss_refreshes_on_success_only [where now = 100 and py_float = sample_float
      and run = "Inr (CompletedProcess 0 ''CPU die temperature: 45.0 C'')"
      and s = "init 0 (net_reading 0 0) None\<lparr>enable_temps := True\<rparr>"
      and py_float' = sample_float and now' = 3 and run' = "Inl TimeoutExpired"]
    probe_miss_refreshes_on_success_only [where now = 100 and py_float = sample_float
      and run = "Inr (CompletedProcess 1 '''')"
      and s = "init 0 (net_reading 0 0) None\<lparr>enable_temps := True\<rparr>"]
    probe_miss_refreshes_on_success_only [where now = 100 and py_float = sample_float
      and run = "Inl TimeoutExpired"
      and s = "init 0 (net_reading 0 0) None\<lparr>enable_temps := True\<rparr>"]
  by (simp add: init_def parse_temp_line_def strip_def is_space_def sample_float_def)

lemma fetch_stores:
  assumes fetch: "get_temperature_info py_float t run s = (Inr (Some v), s1, [Run_Powermetrics])"
  shows "s1 = s\<lparr>last_temp := Some v, last_temp_ts := t\<rparr>" and "enable_temps s"
proof -
  show enabled: "enable_temps s"
    using fetch by (auto simp: get_temperature_info_def split: if_splits)
  have miss: "\<not> (t - last_temp_ts s < of_int (temp_refresh_seconds s) \<and> last_temp s \<noteq> None)"
    using fetch enabled by (auto simp: get_temperature_info_def split: if_splits)
  show "s1 = s\<lparr>last_temp := Some v, last_temp_ts := t\<rparr>"
    using fetch unfolding get_temperature_info_miss [OF enabled miss]
    by (auto simp: Let_def split: sum.splits if_splits)
qed

text \<open>
  Claim C5. Let a call at time \<open>t\<close> run the probe and return a temperature reading. A
  call at any time before \<open>t + T\<close>, \<open>T\<close> the TTL \<open>temp_refresh_seconds\<close>, returns that
  reading without running the probe and leaves the fields as they are, so the same holds
  for the call after it. A call at \<open>t + T\<close> or later runs the probe again.
\<close>

theorem cached_temperature_within_ttl:
  assumes fetch: "get_temperature_info py_float t run s = (Inr (Some v), s1, [Run_Powermetrics])"
  shows "(now < t + of_int (temp_refresh_seconds s) \<longrightarrow>
            get_temperature_info py_float' now run' s1 = (Inr (Some v), s1, []))
    \<and> (t + of_int (temp_refresh_seconds s) \<le> now \<longrightarrow>
            effects_of (get_temperature_info py_float' now run' s1) = [Run_Powermetrics])"
proof -
  note s1 = fetch_stores(1) [OF fetch]
  have enabled: "enable_temps s1"
    using fetch_stores(2) [OF fetch] by (simp add: s1)
  have stored: "last_temp s1 = Some v" "last_temp_ts s1 = t"
    "temp_refresh_seconds s1 = temp_refresh_seconds s"
    by (simp_all add: s1)
  have "get_temperature_info py_float' now run' s1 = (Inr (Some v), s1, [])"
    if "now < t + of_int (temp_refresh_seconds s)"
    using get_temperature_info_hit [of s1 now py_float' run'] that enabled stored by simp
  moreover have "effects_of (get_temperature_info py_float' now run' s1) = [Run_Powermetrics]"
    if "t + of_int (temp_refresh_seconds s) \<le> now"
  proof -
    from that stored
    have "\<not> (now - last_temp_ts s1 < of_int (temp_refresh_seconds s1) \<and> last_temp s1 \<noteq> None)"
      by simp
    from get_temperature_info_miss [OF enabled this] show ?thesis
      by (simp add: effects_of_def Let_def split: sum.splits)
  qed
  ultimately show ?thesis
    by blast
qed

theorem cached_temperature_within_ttl_witness:
  "get_temperature_info sample_float 100
      (Inr (CompletedProcess 0 ''CPU die temperature: 45.0 C''))
      (init 0 (net_reading 0 0) None\<lparr>enable_temps := True\<rparr>)
     = (Inr (Some [(''cpu_temp_c'', 45)]),
        init 0 (net_reading 0 0) None
          \<lparr>enable_temps := True, last_temp := Some [(''cpu_temp_c'', 45)], last_temp_ts := 100\<rparr>,
        [Run_Powermetrics])
   \<and> get_temperature_info sample_float 104 (Inl TimeoutExpired)
        (init 0 (net_reading 0 0) None
          \<lparr>enable_temps := True, last_temp := Some [(''cpu_temp_c'', 45)], last_temp_ts := 100\<rparr>)
     = (Inr (Some [(''cpu_temp_c'', 45)]),
        init 0 (net_reading 0 0) None
          \<lparr>enable_temps := True, last_temp := Some [(''cpu_temp_c'', 45)], last_temp_ts := 100\<rparr>,
        [])
   \<and> effects_of (get_temperature_info sample_float 105 (Inl TimeoutExpired)
        (init 0 (net_reading 0 0) None
          \<lparr>enable_temps := True, last_temp := Some [(''cpu_temp_c'', 45)], last_temp_ts := 100\<rparr>))
     = [Run_Powermetrics]"
proof -
  let ?s = "init 0 (net_reading 0 0) None\<lparr>enable_temps := True\<rparr>"
  let ?s1 = "init 0 (net_reading 0 0) None
          \<lparr>enable_temps := True, last_temp := Some [(''cpu_temp_c'', 45)], last_temp_ts := 100\<rparr>"
  have fetch: "get_temperature_info sample_float 100
      (Inr (CompletedProcess 0 ''CPU die temperature: 45.0 C'')) ?s
     = (Inr (Some [(''cpu_temp_c'', 45)]), ?s1, [Run_Powermetrics])"
    by (simp add: get_temperature_info_def init_def parse_temp_line_def strip_def is_space_def
        sample_float_def Let_def)
  have ttl: "(104::real) < 100 + of_int (temp_refresh_seconds ?s)"
    "(100::real) + of_int (temp_refresh_seconds ?s) \<le> 105"
    by (simp_all add: init_def)
  from cached_temperature_within_ttl [OF fetch, of 104 sample_float "Inl TimeoutExpired"]
    cached_temperature_within_ttl [OF fetch, of 105 sample_float "Inl TimeoutExpired"]
    fetch ttl
  show ?thesis
    by simp
qed

subsection \<open>The priming pass\<close>

lemma prime_loop_raised: "fst (prime_loop ps) \<noteq> None \<Longrightarrow> snd (prime_loop ps) \<noteq> []"
  by (induction ps rule: prime_loop.induct) (auto split: option.splits prod.splits if_splits)

lemma prime_loop_no_sleep: "Sleep d \<notin> set (snd (prime_loop ps))"
  by (induction ps rule: prime_loop.induct) (auto split: option.splits prod.splits if_splits)

lemma prime_pass_idle:
  "\<not> priming_due sort_by now s \<Longrightarrow> prime_pass sort_by now prime_iter s = (Inr (), s, [])"
  by (simp add: prime_pass_def)

lemma prime_pass_runs:
  assumes "priming_due sort_by now s"
  shows "effects_of (prime_pass sort_by now prime_iter s) \<noteq> []"
proof (cases "fst (prime_loop prime_iter)")
  case None
  with assms show ?thesis
    by (auto simp: prime_pass_def effects_of_def split: prod.splits)
next
  case (Some e)
  with prime_loop_raised [of prime_iter] assms show ?thesis
    by (auto simp: prime_pass_def effects_of_def split: prod.splits)
qed

lemma prime_pass_completed:
  assumes "Sleep d \<in> set (effects_of (prime_pass sort_by now prime_iter s))"
  shows "proc_prime_ts (fields_after (prime_pass sort_by now prime_iter s)) = now"
proof (cases "priming_due sort_by now s")
  case True
  with assms prime_loop_no_sleep [of d prime_iter] show ?thesis
    by (auto simp: prime_pass_def effects_of_def fields_after_def
          split: prod.splits option.splits)
next
  case False
  with assms show ?thesis
    by (simp add: prime_pass_idle effects_of_def)
qed

lemma get_top_processes_effects:
  "effects_of (get_top_processes num sort_by now prime_iter proc_iter s)
     = effects_of (prime_pass sort_by now prime_iter s)"
  by (auto simp: get_top_processes_def effects_of_def split: prod.splits sum.splits)

text \<open>
  Claim C9. \<open>get_top_processes\<close> runs the priming loop exactly when \<open>sort_by\<close> is
  \<open>'cpu'\<close> and more than 5 seconds have passed since \<open>_proc_prime_ts\<close>; otherwise it has
  no effect on the outside and leaves \<open>_proc_prime_ts\<close> as it was. A pass that reaches its
  \<open>time.sleep(0.2)\<close> records its time, and no call within the next 5 seconds primes again.
\<close>

theorem priming_respects_cooldown:
  "(effects_of (get_top_processes num sort_by now prime_iter proc_iter s) \<noteq> [] \<longrightarrow>
      sort_by = ''cpu'' \<and> 5 < now - proc_prime_ts s)
   \<and> (sort_by = ''cpu'' \<and> 5 < now - proc_prime_ts s \<longrightarrow>
      effects_of (get_top_processes num sort_by now prime_iter proc_iter s) \<noteq> [])
   \<and> (\<not> (sort_by = ''cpu'' \<and> 5 < now - proc_prime_ts s) \<longrightarrow>
      effects_of (get_top_processes num sort_by now prime_iter proc_iter s) = []
      \<and> proc_prime_ts (fields_after (get_top_processes num sort_by now prime_iter proc_iter s))
          = proc_prime_ts s)
   \<and> (Sleep (2 / 10) \<in> set (effects_of (get_top_processes num sort_by now prime_iter proc_iter s))
      \<longrightarrow>
      proc_prime_ts (fields_after (get_top_processes num sort_by now prime_iter proc_iter s)) = now
      \<and> (later - now \<le> 5 \<longrightarrow>
           effects_of (get_top_processes num' sort_by' later prime_iter' proc_iter'
             (fields_after (get_top_processes num sort_by now prime_iter proc_iter s))) = []))"
proof -
  let ?c = "get_top_processes num sort_by now prime_iter proc_iter s"
  have due: "priming_due sort_by now s \<longleftrightarrow> sort_by = ''cpu'' \<and> 5 < now - proc_prime_ts s"
    by (simp add: priming_due_def)
  have idle: "effects_of ?c = [] \<and> proc_prime_ts (fields_after ?c) = proc_prime_ts s"
    if "\<not> priming_due sort_by now s"
    unfolding get_top_processes_effects get_top_processes_fields prime_pass_idle [OF that]
    by (simp add: effects_of_def fields_after_def)
  have runs: "effects_of ?c \<noteq> []" if "priming_due sort_by now s"
    using that by (simp add: get_top_processes_effects prime_pass_runs)
  have recorded: "proc_prime_ts (fields_after ?c) = now"
    if "Sleep (2 / 10) \<in> set (effects_of ?c)"
    using that prime_pass_completed [of "2 / 10" sort_by now prime_iter s]
    by (simp add: get_top_processes_effects get_top_processes_fields)
  have cooled: "effects_of (get_top_processes num' sort_by' later prime_iter' proc_iter'
      (fields_after ?c)) = []"
    if "Sleep (2 / 10) \<in> set (effects_of ?c)" and "later - now \<le> 5"
  proof -
    from that recorded have "\<not> priming_due sort_by' later (fields_after ?c)"
      by (simp add: priming_due_def)
    then show ?thesis
      unfolding get_top_processes_effects by (simp add: prime_pass_idle effects_of_def)
  qed
  show ?thesis
    unfolding due [symmetric] using idle runs recorded cooled by blast
qed

theorem priming_respects_cooldown_witness:
  "5 < (10::real) - proc_prime_ts (init 0 (net_reading 0 0) None)
   \<and> effects_of (get_top_processes 10 ''cpu'' 10 [(1, None), (2, Some AccessDenied)] []
        (init 0 (net_reading 0 0) None))
       = [Prime_Cpu_Percent 1, Prime_Cpu_Percent 2, Sleep (2 / 10)]
   \<and> proc_prime_ts (fields_after (get_top_processes 10 ''cpu'' 10
        [(1, None), (2, Some AccessDenied)] [] (init 0 (net_reading 0 0) None))) = 10
   \<and> (15::real) - 10 \<le> 5
   \<and> effects_of (get_top_processes 10 ''cpu'' 15 [(1, None)] []
        (fields_after (get_top_processes 10 ''cpu'' 10
           [(1, None), (2, Some AccessDenied)] [] (init 0 (net_reading 0 0) None)))) = []
   \<and> effects_of (get_top_processes 10 ''memory'' 10 [(1, None)] []
        (init 0 (net_reading 0 0) None)) = []
   \<and> proc_prime_ts (fields_after (get_top_processes 10 ''memory'' 10 [(1, None)] []
        (init 0 (net_reading 0 0) None))) = proc_prime_ts (init 0 (net_reading 0 0) None)"
  using
    priming_respects_cooldown [where num = 10 and sort_by = "''cpu''" and now = 10
      and prime_iter = "[(1, None), (2, Some AccessDenied)]" and proc_iter = "[]"
      and s = "init 0 (net_reading 0 0) None" and later = 15 and num' = 10
      and sort_by' = "''cpu''" and prime_iter' = "[(1, None)]" and proc_iter' = "[]"]
    priming_respects_cooldown [where num = 10 and sort_by = "''memory''" and now = 10
      and prime_iter = "[(1, None)]" and proc_iter = "[]"
      and s = "init 0 (net_reading 0 0) None"]
  by (simp add: get_top_processes_def prime_pass_def priming_due_def psutil_process_error_def
      effects_of_def fields_after_def init_def)

subsection \<open>The ranked list\<close>

lemma length_sort_reverse: "length (sort_reverse key xs) = length xs"
  by (simp add: sort_reverse_def)

lemma sort_reverse_descending:
  "sorted_wrt (\<lambda>p q. key q \<le> key p) (sort_reverse key xs)"
proof -
  have "sorted (map key (sort_key key (rev xs)))"
    by (rule sorted_sort_key)
  then have "sorted_wrt (\<lambda>p q. key p \<le> key q) (sort_key key (rev xs))"
    by (simp add: sorted_map)
  then show ?thesis
    by (simp add: sort_reverse_def sorted_wrt_rev)
qed



lemma read_loop_count:
  "read_loop rs = Inr ps \<Longrightarrow> length ps = length (filter (\<lambda>r. \<not> isl r) rs)"
  by (induction rs arbitrary: ps rule: read_loop.induct) (auto split: sum.splits if_splits)


lemma get_top_processes_Inr:
  assumes "returned (get_top_processes num sort_by now prime_iter proc_iter s) = Inr out"
  obtains ps where "read_loop proc_iter = Inr ps"
    and "out = slice_to num (sort_reverse (sort_metric sort_by) ps)"
  using assms
  by (auto simp: get_top_processes_def returned_def split: prod.splits sum.splits)

lemma sort_metric_cases:
  "sort_metric sort_by = (if sort_by = ''memory'' then memory_percent else cpu_percent)"
  by (simp add: sort_metric_def)

text \<open>
  Claim C4. When \<open>get_top_processes\<close> returns for \<open>num \<ge> 0\<close>, the length of the list
  is the minimum of \<open>num\<close> and the number of processes that were read without an
  exception, and the list is in descending order of \<open>memory_percent\<close> when \<open>sort_by\<close> is
  \<open>'memory'\<close>, and of \<open>cpu_percent\<close> for every other \<open>sort_by\<close>.
\<close>

theorem top_processes_length_and_order:
  assumes ret: "returned (get_top_processes num sort_by now prime_iter proc_iter s) = Inr out"
    and num: "0 \<le> num"
  shows "length out = min (nat num) (length (filter (\<lambda>r. \<not> isl r) proc_iter))
    \<and> (if sort_by = ''memory''
        then sorted_wrt (\<lambda>p q. memory_percent q \<le> memory_percent p) out
        else sorted_wrt (\<lambda>p q. cpu_percent q \<le> cpu_percent p) out)"
proof -
  from ret obtain ps where ps: "read_loop proc_iter = Inr ps"
    and out: "out = slice_to num (sort_reverse (sort_metric sort_by) ps)"
    by (rule get_top_processes_Inr)
  from num have take: "out = take (nat num) (sort_reverse (sort_metric sort_by) ps)"
    by (simp add: out slice_to_def)
  have "length out = min (nat num) (length ps)"
    by (simp add: take length_sort_reverse min.commute)
  then have len: "length out = min (nat num) (length (filter (\<lambda>r. \<not> isl r) proc_iter))"
    by (simp add: read_loop_count [OF ps])
  have "sorted_wrt (\<lambda>p q. sort_metric sort_by q \<le> sort_metric sort_by p) out"
    unfolding take by (intro sorted_wrt_take sort_reverse_descending)
  then have "if sort_by = ''memory''
        then sorted_wrt (\<lambda>p q. memory_percent q \<le> memory_percent p) out
        else sorted_wrt (\<lambda>p q. cpu_percent q \<le> cpu_percent p) out"
    by (cases "sort_by = ''memory''") (simp_all add: sort_metric_cases)
  with len show ?thesis
    by simp
qed

theorem top_processes_length_and_order_witness:
  "returned (get_top_processes 2 ''cpu'' 0 []
      [proc_reading 1 10 3, Inl NoSuchProcess, proc_reading 2 30 2, proc_reading 3 30 1]
      (init 0 (net_reading 0 0) None))
     = Inr [\<lparr> pid = 2, name = None, cpu_percent = 30, memory_percent = 2, username = None \<rparr>,
            \<lparr> pid = 3, name = None, cpu_percent = 30, memory_percent = 1, username = None \<rparr>]
   \<and> (0::int) \<le> 2
   \<and> length [\<lparr> pid = 2, name = None, cpu_percent = 30, memory_percent = 2, username = None \<rparr>,
            \<lparr> pid = 3, name = None, cpu_percent = 30, memory_percent = 1, username = None \<rparr>]
       = min (nat 2) (length (filter (\<lambda>r. \<not> isl r)
           [proc_reading 1 10 3, Inl NoSuchProcess, proc_reading 2 30 2, proc_reading 3 30 1]))"
proof -
  have ret: "returned (get_top_processes 2 ''cpu'' 0 []
      [proc_reading 1 10 3, Inl NoSuchProcess, proc_reading 2 30 2, proc_reading 3 30 1]
      (init 0 (net_reading 0 0) None))
     = Inr [\<lparr> pid = 2, name = None, cpu_percent = 30, memory_percent = 2, username = None \<rparr>,
            \<lparr> pid = 3, name = None, cpu_percent = 30, memory_percent = 1, username = None \<rparr>]"
    by (simp add: get_top_processes_def prime_pass_def priming_due_def init_def returned_def
        proc_reading_def psutil_process_error_def or_zero_def py_round_def round_half_even_def
        sort_metric_def sort_reverse_def slice_to_def)
  from top_processes_length_and_order [OF ret] ret show ?thesis
    by simp
qed




end
